theory Spec2Isabelle
  imports Main "HOL-Library.Word"
begin

unbundle bit_operations_syntax

section \<open>Data model of openpgp.c\<close>

type_synonym byte = "8 word"

text \<open>
  Modelled from the spec: the identifiers of gnuk.h and openpgp.h that openpgp.c uses for
  authentication flags, error counters, private-key slots and simple data objects. The
  headers are not among the sources at hand; the spec names the members of each family
  (section 3), and only their distinctness matters to openpgp.c, so each family is a datatype.
\<close>

datatype ac_flag = AC_PSO_CDS_AUTHORIZED | AC_PSO_OTHER_AUTHORIZED | AC_ADMIN_AUTHORIZED

datatype pw_err = PW_ERR_PW1 | PW_ERR_RC | PW_ERR_PW3

datatype kind_of_key = GPG_KEY_FOR_SIGNING | GPG_KEY_FOR_DECRYPTION | GPG_KEY_FOR_AUTHENTICATION

datatype simple_do = NR_DO_KEYSTRING_PW1 | NR_DO_KEYSTRING_RC

text \<open>
  The globals the handlers read and write. \<open>cmd_APDU\<close> is the command buffer as the transport
  left it and \<open>cmd_APDU_size\<close> the number of bytes received. \<open>res_APDU\<close> is the response
  buffer, a store from offsets to bytes, of which the first \<open>res_APDU_size\<close> are the answer.
  \<open>file_selection\<close> is the static variable of openpgp.c.

  Modelled from the spec: the remaining fields are the state that openpgp.c reaches through
  globals and helpers of gnuk.h, ac.c and openpgp-do.c, none of which is among the sources at
  hand: \<open>data_objects_number_of_bytes\<close> (a 16-bit size, of which SELECT FILE reports the low
  and the high byte), the two keystring globals, the authentication flags, the password error
  counters, the digital-signature counter and the simple data objects (section 3 of the
  spec). \<open>ext\<close> is whatever else the collaborators keep (flash, loaded keys).
\<close>

record 'x card =
  cmd_APDU :: "byte list"
  cmd_APDU_size :: int
  res_APDU :: "nat \<Rightarrow> byte"
  res_APDU_size :: int
  file_selection :: byte
  data_objects_number_of_bytes :: "16 word"
  keystring_md_pw3 :: "byte list"
  pw1_keystring :: "byte list"
  auth_status :: "ac_flag \<Rightarrow> bool"
  pw_err_counter :: "pw_err \<Rightarrow> nat"
  digital_signature_counter :: nat
  do_simple :: "simple_do \<Rightarrow> byte list option"
  ext :: 'x

text \<open>
  The external collaborators of openpgp.c (spec section 6), as parameters. A pointer into
  \<open>cmd_APDU\<close> is passed as its offset, together with the \<open>int\<close> length that follows it in C;
  a keystring is passed as the bytes it points to. Each collaborator that can change the card
  returns the new state; those that return an \<open>int\<close> return it first.
\<close>

record 'x collab =
  verify_pso_cds :: "nat \<Rightarrow> int \<Rightarrow> 'x card \<Rightarrow> int \<times> 'x card"
  verify_pso_other :: "nat \<Rightarrow> int \<Rightarrow> 'x card \<Rightarrow> int \<times> 'x card"
  verify_admin :: "nat \<Rightarrow> int \<Rightarrow> 'x card \<Rightarrow> int \<times> 'x card"
  verify_admin_0 :: "nat \<Rightarrow> int \<Rightarrow> int \<Rightarrow> 'x card \<Rightarrow> int \<times> 'x card"
  gpg_set_pw3 :: "nat \<Rightarrow> int \<Rightarrow> 'x card \<Rightarrow> 'x card"
  sha1 :: "byte list \<Rightarrow> byte list"
  gpg_do_load_prvkey :: "kind_of_key \<Rightarrow> int \<Rightarrow> byte list \<Rightarrow> 'x card \<Rightarrow> int \<times> 'x card"
  gpg_do_chks_prvkey ::
    "kind_of_key \<Rightarrow> int \<Rightarrow> byte list \<Rightarrow> int \<Rightarrow> byte list \<Rightarrow> 'x card \<Rightarrow> int \<times> 'x card"
  gpg_do_get_data :: "16 word \<Rightarrow> 'x card \<Rightarrow> 'x card"
  gpg_do_put_data :: "16 word \<Rightarrow> nat \<Rightarrow> int \<Rightarrow> 'x card \<Rightarrow> 'x card"
  gpg_do_public_key :: "byte \<Rightarrow> 'x card \<Rightarrow> 'x card"
  gpg_get_pw1_lifetime :: "'x card \<Rightarrow> int"
  rsa_sign :: "nat \<Rightarrow> int \<Rightarrow> 'x card \<Rightarrow> int \<times> 'x card"
  rsa_decrypt :: "nat \<Rightarrow> int \<Rightarrow> 'x card \<Rightarrow> int \<times> 'x card"
  openpgpcard_aid :: "byte list"

subsection \<open>Constants\<close>

definition INS_VERIFY :: byte where "INS_VERIFY = 0x20"
definition INS_CHANGE_REFERENCE_DATA :: byte where "INS_CHANGE_REFERENCE_DATA = 0x24"
definition INS_PSO :: byte where "INS_PSO = 0x2a"
definition INS_RESET_RETRY_COUNTER :: byte where "INS_RESET_RETRY_COUNTER = 0x2c"
definition INS_PGP_GENERATE_ASYMMETRIC_KEY_PAIR :: byte where
  "INS_PGP_GENERATE_ASYMMETRIC_KEY_PAIR = 0x47"
definition INS_INTERNAL_AUTHENTICATE :: byte where "INS_INTERNAL_AUTHENTICATE = 0x88"
definition INS_SELECT_FILE :: byte where "INS_SELECT_FILE = 0xa4"
definition INS_READ_BINARY :: byte where "INS_READ_BINARY = 0xb0"
definition INS_GET_DATA :: byte where "INS_GET_DATA = 0xca"
definition INS_PUT_DATA :: byte where "INS_PUT_DATA = 0xda"
definition INS_PUT_DATA_ODD :: byte where "INS_PUT_DATA_ODD = 0xdb"

definition select_file_TOP_result :: "byte list" where
  "select_file_TOP_result =
     [0x00, 0x00,
      0x0b, 0x10,
      0x3f, 0x00,
      0x38,
      0xff,
      0xff, 0x44, 0x44,
      0x01,
      0x05,
      0x03,
      0x01,
      0x01,
      0x00,
      0x00,
      0x00, 0x00]"

definition FILE_NONE :: byte where "FILE_NONE = 0"
definition FILE_DF_OPENPGP :: byte where "FILE_DF_OPENPGP = 1"
definition FILE_MF :: byte where "FILE_MF = 2"
definition FILE_EF_DIR :: byte where "FILE_EF_DIR = 3"
definition FILE_EF_SERIAL :: byte where "FILE_EF_SERIAL = 4"

text \<open>
  Modelled from the spec: the roles of gnuk.h. CHANGE REFERENCE DATA computes
  \<open>who = P2 - 0x80\<close> and the spec maps P2 = 0x81 to BY_USER and P2 = 0x83 to BY_ADMIN;
  BY_RESETCODE is the value in between.
\<close>

definition BY_USER :: int where "BY_USER = 1"
definition BY_RESETCODE :: int where "BY_RESETCODE = 2"
definition BY_ADMIN :: int where "BY_ADMIN = 3"

text \<open>
  Modelled from the spec: the sizes of gnuk.h. A keystring is a SHA-1 image of 20 bytes and
  the stored PW1 record \<open>[len | SHA1(pw)]\<close> has 21 bytes; the factory PW1 is "123456"
  (scenario A), given here as its ASCII bytes.
\<close>

definition KEYSTRING_MD_SIZE :: int where "KEYSTRING_MD_SIZE = 20"
definition KEYSTRING_SIZE_PW1 :: int where "KEYSTRING_SIZE_PW1 = 21"
definition OPENPGP_CARD_INITIAL_PW1 :: "byte list" where
  "OPENPGP_CARD_INITIAL_PW1 = [0x31, 0x32, 0x33, 0x34, 0x35, 0x36]"

text \<open>Modelled from the spec: a credential is blocked after three failed attempts.\<close>

definition PASSWORD_ERRORS_MAX :: nat where "PASSWORD_ERRORS_MAX = 3"

subsection \<open>Response framing\<close>

text \<open>
  \<open>memcpy (buf + d, src, n)\<close> on a buffer \<open>buf\<close> that is a store from offsets to bytes.
\<close>

definition memcpy :: "(nat \<Rightarrow> byte) \<Rightarrow> nat \<Rightarrow> byte list \<Rightarrow> int \<Rightarrow> nat \<Rightarrow> byte" where
  "memcpy buf d src n = (\<lambda>i. if d \<le> i \<and> int (i - d) < n then src ! (i - d) else buf i)"

definition write_res_apdu :: "byte list \<Rightarrow> int \<Rightarrow> byte \<Rightarrow> byte \<Rightarrow> 'x card \<Rightarrow> 'x card" where
  "write_res_apdu p len sw1 sw2 s =
     s\<lparr>res_APDU_size := 2 + len,
       res_APDU := ((if len \<noteq> 0 then memcpy (res_APDU s) 0 p len else res_APDU s)
                     (nat len := sw1)) (nat (len + 1) := sw2)\<rparr>"

text \<open>
  Modelled from the spec: the status macros of openpgp.h. Each writes a response without
  data whose status word is the one the spec lists (section 6); none of them returns from the
  handler, which is why the handlers write \<open>return\<close> after them where they mean to stop.
\<close>

definition GPG_MEMORY_FAILURE :: "'x card \<Rightarrow> 'x card" where
  "GPG_MEMORY_FAILURE = write_res_apdu [] 0 0x65 0x81"
definition GPG_SECURITY_FAILURE :: "'x card \<Rightarrow> 'x card" where
  "GPG_SECURITY_FAILURE = write_res_apdu [] 0 0x69 0x82"
definition GPG_SECURITY_AUTH_BLOCKED :: "'x card \<Rightarrow> 'x card" where
  "GPG_SECURITY_AUTH_BLOCKED = write_res_apdu [] 0 0x69 0x83"
definition GPG_NO_FILE :: "'x card \<Rightarrow> 'x card" where
  "GPG_NO_FILE = write_res_apdu [] 0 0x6a 0x82"
definition GPG_NO_RECORD :: "'x card \<Rightarrow> 'x card" where
  "GPG_NO_RECORD = write_res_apdu [] 0 0x6a 0x88"
definition GPG_BAD_P0_P1 :: "'x card \<Rightarrow> 'x card" where
  "GPG_BAD_P0_P1 = write_res_apdu [] 0 0x6b 0x00"
definition GPG_NO_INS :: "'x card \<Rightarrow> 'x card" where
  "GPG_NO_INS = write_res_apdu [] 0 0x6d 0x00"
definition GPG_ERROR :: "'x card \<Rightarrow> 'x card" where
  "GPG_ERROR = write_res_apdu [] 0 0x6f 0x00"
definition GPG_SUCCESS :: "'x card \<Rightarrow> 'x card" where
  "GPG_SUCCESS = write_res_apdu [] 0 0x90 0x00"

text \<open>What the transport reads back: the answer bytes, and the two that end it (SW1, SW2).\<close>

definition response :: "'x card \<Rightarrow> byte list" where
  "response s = map (res_APDU s) [0..<nat (res_APDU_size s)]"

definition status_word :: "'x card \<Rightarrow> byte \<times> byte" where
  "status_word s =
     (res_APDU s (nat (res_APDU_size s - 2)), res_APDU s (nat (res_APDU_size s - 1)))"

subsection \<open>Helpers of ac.c and openpgp-do.c\<close>

text \<open>
  Modelled from the spec: the authentication flags of ac.c (section 3). \<open>ac_check_status\<close>
  reads a flag, the two reset functions clear theirs.
\<close>

definition ac_check_status :: "ac_flag \<Rightarrow> 'x card \<Rightarrow> bool" where
  "ac_check_status f s = auth_status s f"

definition ac_reset_pso_cds :: "'x card \<Rightarrow> 'x card" where
  "ac_reset_pso_cds s = s\<lparr>auth_status := (auth_status s)(AC_PSO_CDS_AUTHORIZED := False)\<rparr>"

definition ac_reset_pso_other :: "'x card \<Rightarrow> 'x card" where
  "ac_reset_pso_other s = s\<lparr>auth_status := (auth_status s)(AC_PSO_OTHER_AUTHORIZED := False)\<rparr>"

text \<open>
  Modelled from the spec: the password error counters of openpgp-do.c (section 3): three
  independent counters, incremented on a failed verification, reset on success, blocked at
  the maximum of three.
\<close>

definition gpg_passwd_locked :: "pw_err \<Rightarrow> 'x card \<Rightarrow> bool" where
  "gpg_passwd_locked which s = (pw_err_counter s which \<ge> PASSWORD_ERRORS_MAX)"

definition gpg_reset_pw_err_counter :: "pw_err \<Rightarrow> 'x card \<Rightarrow> 'x card" where
  "gpg_reset_pw_err_counter which s = s\<lparr>pw_err_counter := (pw_err_counter s)(which := 0)\<rparr>"

definition gpg_increment_pw_err_counter :: "pw_err \<Rightarrow> 'x card \<Rightarrow> 'x card" where
  "gpg_increment_pw_err_counter which s =
     s\<lparr>pw_err_counter := (pw_err_counter s)(which := Suc (pw_err_counter s which))\<rparr>"

text \<open>
  Modelled from the spec: the persistent digital-signature counter of openpgp-do.c
  (section 4.7, property 7), a number that the increment raises by one.
\<close>

definition gpg_increment_digital_signature_counter :: "'x card \<Rightarrow> 'x card" where
  "gpg_increment_digital_signature_counter s =
     s\<lparr>digital_signature_counter := Suc (digital_signature_counter s)\<rparr>"

text \<open>
  Modelled from the spec: the simple data objects of openpgp-do.c (section 6).
  \<open>gpg_do_read_simple\<close> returns the stored bytes, or \<open>None\<close> for the NULL pointer of an absent
  object; \<open>gpg_do_write_simple (nr, data, sz)\<close> stores the first \<open>sz\<close> bytes of \<open>data\<close>.
\<close>

definition gpg_do_read_simple :: "simple_do \<Rightarrow> 'x card \<Rightarrow> byte list option" where
  "gpg_do_read_simple nr s = do_simple s nr"

definition gpg_do_write_simple :: "simple_do \<Rightarrow> byte list \<Rightarrow> int \<Rightarrow> 'x card \<Rightarrow> 'x card" where
  "gpg_do_write_simple nr data sz s =
     s\<lparr>do_simple := (do_simple s)(nr := Some (take (nat sz) data))\<rparr>"

text \<open>
  The \<open>len\<close> bytes of the command buffer from offset \<open>off\<close> on, which is what a collaborator
  given \<open>&cmd_APDU[off]\<close> and \<open>len\<close> reads. A negative \<open>len\<close> reads nothing here; in C it is
  converted to a huge \<open>size_t\<close>.
\<close>

definition bytes_at :: "byte list \<Rightarrow> nat \<Rightarrow> int \<Rightarrow> byte list" where
  "bytes_at buf off len = take (nat len) (drop off buf)"

section \<open>The command handlers\<close>

definition cmd_verify :: "'x collab \<Rightarrow> 'x card \<Rightarrow> 'x card" where
  "cmd_verify env s =
     (let p2 = cmd_APDU s ! 3;
          len0 = uint (cmd_APDU s ! 4);
          (len, data_start) =
            (if len0 = 0
             then (push_bit 8 (uint (cmd_APDU s ! 5)) OR uint (cmd_APDU s ! 6), 7)
             else (len0, 5));
          (r, s1) =
            (if p2 = 0x81 then verify_pso_cds env data_start len s
             else if p2 = 0x82 then verify_pso_other env data_start len s
             else verify_admin env data_start len s)
      in if r < 0 then GPG_SECURITY_FAILURE s1
         else if r = 0 then GPG_SECURITY_AUTH_BLOCKED s1
         else GPG_SUCCESS s1)"

definition gpg_change_keystring ::
  "'x collab \<Rightarrow> int \<Rightarrow> byte list \<Rightarrow> int \<Rightarrow> byte list \<Rightarrow> 'x card \<Rightarrow> int \<times> 'x card" where
  "gpg_change_keystring env who_old old_ks who_new new_ks s =
     (let prv_keys_exist = (0::int);
          (r, s) = gpg_do_load_prvkey env GPG_KEY_FOR_SIGNING who_old old_ks s
      in if r < 0 then (r, s) else
     (let prv_keys_exist = (if r > 0 then prv_keys_exist + 1 else prv_keys_exist);
          (r, s) = gpg_do_chks_prvkey env GPG_KEY_FOR_SIGNING who_old old_ks who_new new_ks s
      in if r < 0 then (- 2, s) else
     (let (r, s) = gpg_do_load_prvkey env GPG_KEY_FOR_DECRYPTION who_old old_ks s
      in if r < 0 then (r, s) else
     (let prv_keys_exist = (if r > 0 then prv_keys_exist + 1 else prv_keys_exist);
          (r, s) = gpg_do_chks_prvkey env GPG_KEY_FOR_DECRYPTION who_old old_ks who_new new_ks s
      in if r < 0 then (- 2, s) else
     (let (r, s) = gpg_do_load_prvkey env GPG_KEY_FOR_AUTHENTICATION who_old old_ks s
      in if r < 0 then (r, s) else
     (let prv_keys_exist = (if r > 0 then prv_keys_exist + 1 else prv_keys_exist);
          (r, s) =
            gpg_do_chks_prvkey env GPG_KEY_FOR_AUTHENTICATION who_old old_ks who_new new_ks s
      in if r < 0 then (- 2, s)
         else if prv_keys_exist \<noteq> 0 then (1, s)
         else (0, s)))))))"

text \<open>
  Lines 242 to 278 of \<open>cmd_change_password\<close>: what the handler does once the old password
  (\<open>pw_len\<close> bytes at offset \<open>pw\<close>) and the new one (\<open>newpw_len\<close> bytes at offset \<open>newpw\<close>)
  are located. The early returns of lines 204, 226 and 232 leave the handler before it.
\<close>

definition change_password_rewrap ::
  "'x collab \<Rightarrow> int \<Rightarrow> nat \<Rightarrow> int \<Rightarrow> nat \<Rightarrow> int \<Rightarrow> 'x card \<Rightarrow> 'x card" where
  "change_password_rewrap env who pw pw_len newpw newpw_len s =
     (let old_ks = sha1 env (bytes_at (cmd_APDU s) pw pw_len);
          new_ks = sha1 env (bytes_at (cmd_APDU s) newpw newpw_len);
          new_ks0 = (word_of_int newpw_len :: byte) # new_ks;
          (r, s1) = gpg_change_keystring env who old_ks who new_ks s
      in if r < - 2 then GPG_MEMORY_FAILURE s1
         else if r < 0 then GPG_SECURITY_FAILURE s1
         else if r = 0 \<and> who = BY_USER then
           GPG_SUCCESS (gpg_reset_pw_err_counter PW_ERR_PW1 (ac_reset_pso_cds
             (gpg_do_write_simple NR_DO_KEYSTRING_PW1 new_ks0 KEYSTRING_SIZE_PW1 s1)))
         else if r > 0 \<and> who = BY_USER then
           GPG_SUCCESS (gpg_reset_pw_err_counter PW_ERR_PW1 (ac_reset_pso_cds
             (gpg_do_write_simple NR_DO_KEYSTRING_PW1 new_ks0 1 s1)))
         else GPG_SUCCESS (gpg_reset_pw_err_counter PW_ERR_PW3 s1))"

definition cmd_change_password :: "'x collab \<Rightarrow> 'x card \<Rightarrow> 'x card" where
  "cmd_change_password env s =
     (let p2 = cmd_APDU s ! 3;
          len0 = uint (cmd_APDU s ! 4);
          who = uint p2 - 0x80;
          (len, pw) =
            (if len0 = 0
             then (push_bit 8 (uint (cmd_APDU s ! 5)) OR uint (cmd_APDU s ! 6), 5 + 2)
             else (len0, 5))
      in if who = BY_USER then
           (case gpg_do_read_simple NR_DO_KEYSTRING_PW1 s of
              None \<Rightarrow>
                if len < int (length OPENPGP_CARD_INITIAL_PW1) then GPG_SECURITY_FAILURE s
                else
                  (let pw_len = int (length OPENPGP_CARD_INITIAL_PW1)
                   in change_password_rewrap env who pw pw_len
                        (pw + nat pw_len) (len - pw_len) s)
            | Some pk \<Rightarrow>
                (let pw_len = uint (pk ! 0)
                 in change_password_rewrap env who pw pw_len
                      (pw + nat pw_len) (len - pw_len) s))
         else
           (let (pw_len, s1) = verify_admin_0 env pw len (- 1) s
            in if pw_len < 0 then GPG_SECURITY_FAILURE s1
               else if pw_len = 0 then GPG_SECURITY_AUTH_BLOCKED s1
               else
                 (let newpw = pw + nat pw_len;
                      newpw_len = len - pw_len;
                      s2 = gpg_set_pw3 env newpw newpw_len s1
                  in change_password_rewrap env who pw pw_len newpw newpw_len s2)))"

text \<open>The statements under the label \<open>sec_fail\<close> of \<open>cmd_reset_user_password\<close>.\<close>

definition sec_fail :: "'x card \<Rightarrow> 'x card" where
  "sec_fail s = GPG_SECURITY_FAILURE (gpg_increment_pw_err_counter PW_ERR_RC s)"

definition cmd_reset_user_password :: "'x collab \<Rightarrow> 'x card \<Rightarrow> 'x card" where
  "cmd_reset_user_password env s =
     (let p1 = cmd_APDU s ! 2;
          len0 = uint (cmd_APDU s ! 4);
          (len, pw) =
            (if len0 = 0
             then (push_bit 8 (uint (cmd_APDU s ! 5)) OR uint (cmd_APDU s ! 6), 5 + 2)
             else (len0, 5))
      in if p1 = 0x00 then
           (let ks_rc = gpg_do_read_simple NR_DO_KEYSTRING_RC s
            in if gpg_passwd_locked PW_ERR_RC s then GPG_SECURITY_AUTH_BLOCKED s
               else case ks_rc of
                 None \<Rightarrow> GPG_SECURITY_FAILURE s
               | Some ks_rc \<Rightarrow>
                   (let pw_len = uint (ks_rc ! 0);
                        newpw = pw + nat pw_len;
                        newpw_len = len - pw_len;
                        old_ks = sha1 env (bytes_at (cmd_APDU s) pw pw_len);
                        new_ks = sha1 env (bytes_at (cmd_APDU s) newpw newpw_len);
                        new_ks0 = (word_of_int newpw_len :: byte) # new_ks;
                        (r, s1) = gpg_change_keystring env BY_RESETCODE old_ks BY_USER new_ks s
                    in if r < - 2 then GPG_MEMORY_FAILURE s1
                       else if r < 0 then sec_fail s1
                       else if r = 0 then
                         (if take (nat KEYSTRING_MD_SIZE) (drop 1 ks_rc)
                               \<noteq> take (nat KEYSTRING_MD_SIZE) old_ks
                          then sec_fail s1
                          else GPG_SUCCESS (gpg_reset_pw_err_counter PW_ERR_PW1
                                 (gpg_reset_pw_err_counter PW_ERR_RC (ac_reset_pso_cds
                                   (gpg_do_write_simple NR_DO_KEYSTRING_PW1 new_ks0
                                      KEYSTRING_SIZE_PW1 s1)))))
                       else GPG_SUCCESS (gpg_reset_pw_err_counter PW_ERR_PW1
                              (gpg_reset_pw_err_counter PW_ERR_RC (ac_reset_pso_cds s1)))))
         else
           (let old_ks = keystring_md_pw3 s
            in if \<not> ac_check_status AC_ADMIN_AUTHORIZED s then GPG_SECURITY_FAILURE s
               else
                 (let newpw_len = len;
                      newpw = pw;
                      new_ks = sha1 env (bytes_at (cmd_APDU s) newpw newpw_len);
                      new_ks0 = (word_of_int newpw_len :: byte) # new_ks;
                      (r, s1) = gpg_change_keystring env BY_ADMIN old_ks BY_USER new_ks s
                  in if r < - 2 then GPG_MEMORY_FAILURE s1
                     else if r < 0 then GPG_SECURITY_FAILURE s1
                     else if r = 0 then
                       GPG_SUCCESS (gpg_reset_pw_err_counter PW_ERR_PW1 (ac_reset_pso_cds
                         (gpg_do_write_simple NR_DO_KEYSTRING_PW1 new_ks0
                            KEYSTRING_SIZE_PW1 s1)))
                     else GPG_SUCCESS (gpg_reset_pw_err_counter PW_ERR_PW1
                            (ac_reset_pso_cds s1)))))"

definition cmd_put_data :: "'x collab \<Rightarrow> 'x card \<Rightarrow> 'x card" where
  "cmd_put_data env s =
     (let s1 = (if file_selection s \<noteq> FILE_DF_OPENPGP then GPG_NO_RECORD s else s);
          tag = (push_bit 8 (ucast (cmd_APDU s1 ! 2)) OR ucast (cmd_APDU s1 ! 3) :: 16 word);
          len0 = cmd_APDU_size s1 - 5;
          (data, len) = (if len0 \<ge> 256 then (5 + 2, len0 - 2) else (5, len0))
      in gpg_do_put_data env tag data len s1)"

definition cmd_pgp_gakp :: "'x collab \<Rightarrow> 'x card \<Rightarrow> 'x card" where
  "cmd_pgp_gakp env s =
     (if cmd_APDU s ! 2 = 0x81 then gpg_do_public_key env (cmd_APDU s ! 7) s
      else
        (let s1 = (if \<not> ac_check_status AC_ADMIN_AUTHORIZED s then GPG_SECURITY_FAILURE s
                   else s)
         in GPG_ERROR s1))"

definition cmd_read_binary :: "'x collab \<Rightarrow> 'x card \<Rightarrow> 'x card" where
  "cmd_read_binary env s =
     (if file_selection s = FILE_EF_SERIAL then
        (if cmd_APDU s ! 3 \<ge> 6 then GPG_BAD_P0_P1 s
         else
           (let len = uint (openpgpcard_aid env ! 0)
            in s\<lparr>res_APDU :=
                    ((memcpy ((res_APDU s)(0 := 0x5a)) 1 (openpgpcard_aid env) len)
                      (nat (len + 1) := 0x90)) (nat (len + 2) := 0x00),
                  res_APDU_size := len + 3\<rparr>))
      else GPG_NO_RECORD s)"

definition cmd_select_file :: "'x collab \<Rightarrow> 'x card \<Rightarrow> 'x card" where
  "cmd_select_file env s =
     (if cmd_APDU s ! 2 = 4 then GPG_SUCCESS (s\<lparr>file_selection := FILE_DF_OPENPGP\<rparr>)
      else if cmd_APDU s ! 4 = 2 \<and> cmd_APDU s ! 5 = 0x2f \<and> cmd_APDU s ! 6 = 0x02 then
        (GPG_SUCCESS s)\<lparr>file_selection := FILE_EF_SERIAL\<rparr>
      else if cmd_APDU s ! 4 = 2 \<and> cmd_APDU s ! 5 = 0x3f \<and> cmd_APDU s ! 6 = 0x00 then
        (let s1 =
           (if cmd_APDU s ! 3 = 0x0c then GPG_SUCCESS s
            else
              (let s2 = write_res_apdu select_file_TOP_result
                          (int (length select_file_TOP_result)) 0x90 0x00 s;
                   s3 = s2\<lparr>res_APDU := (res_APDU s2)
                            (2 := ucast (data_objects_number_of_bytes s2 AND 0xff))\<rparr>
               in s3\<lparr>res_APDU := (res_APDU s3)
                      (3 := ucast (drop_bit 8 (data_objects_number_of_bytes s3)))\<rparr>))
         in s1\<lparr>file_selection := FILE_MF\<rparr>)
      else GPG_NO_FILE (s\<lparr>file_selection := FILE_NONE\<rparr>))"

definition cmd_get_data :: "'x collab \<Rightarrow> 'x card \<Rightarrow> 'x card" where
  "cmd_get_data env s =
     (let tag = (push_bit 8 (ucast (cmd_APDU s ! 2)) OR ucast (cmd_APDU s ! 3) :: 16 word);
          s1 = (if file_selection s \<noteq> FILE_DF_OPENPGP then GPG_NO_RECORD s else s)
      in gpg_do_get_data env tag s1)"

definition cmd_pso :: "'x collab \<Rightarrow> 'x card \<Rightarrow> 'x card" where
  "cmd_pso env s =
     (let len0 = uint (cmd_APDU s ! 4);
          (len, data_start) =
            (if len0 = 0
             then (push_bit 8 (uint (cmd_APDU s ! 5)) OR uint (cmd_APDU s ! 6), 7)
             else (len0, 5))
      in if cmd_APDU s ! 2 = 0x9e \<and> cmd_APDU s ! 3 = 0x9a then
           (if \<not> ac_check_status AC_PSO_CDS_AUTHORIZED s then GPG_SECURITY_FAILURE s
            else if cmd_APDU_size s \<noteq> 8 + 35 \<and> cmd_APDU_size s \<noteq> 8 + 35 + 1 then GPG_ERROR s
            else
              (let (r, s1) = rsa_sign env data_start len s
               in if r < 0 then GPG_ERROR (ac_reset_pso_cds s1)
                  else
                    (let s2 = (if gpg_get_pw1_lifetime env s1 \<noteq> 0 then ac_reset_pso_cds s1
                               else s1)
                     in gpg_increment_digital_signature_counter s2)))
         else if cmd_APDU s ! 2 = 0x80 \<and> cmd_APDU s ! 3 = 0x86 then
           (if gpg_passwd_locked PW_ERR_PW1 s \<or> \<not> ac_check_status AC_PSO_OTHER_AUTHORIZED s
            then GPG_SECURITY_FAILURE s
            else
              (let (r, s1) = gpg_do_load_prvkey env GPG_KEY_FOR_DECRYPTION BY_USER
                               (drop 1 (pw1_keystring s)) s
               in if r < 0 then GPG_SECURITY_FAILURE (gpg_increment_pw_err_counter PW_ERR_PW1 s1)
                  else
                    (let s2 = ac_reset_pso_other (gpg_reset_pw_err_counter PW_ERR_PW1 s1);
                         (r, s3) = rsa_decrypt env (data_start + 1) (len - 1) s2
                     in if r < 0 then GPG_ERROR s3 else s3)))
         else GPG_ERROR s)"

definition cmd_internal_authenticate :: "'x collab \<Rightarrow> 'x card \<Rightarrow> 'x card" where
  "cmd_internal_authenticate env s =
     (let len0 = uint (cmd_APDU s ! 4);
          (len, data_start) =
            (if len0 = 0
             then (push_bit 8 (uint (cmd_APDU s ! 5)) OR uint (cmd_APDU s ! 6), 7)
             else (len0, 5))
      in if cmd_APDU s ! 2 = 0x00 \<and> cmd_APDU s ! 3 = 0x00 then
           (if gpg_passwd_locked PW_ERR_PW1 s \<or> \<not> ac_check_status AC_PSO_OTHER_AUTHORIZED s
            then GPG_SECURITY_FAILURE s
            else
              (let (r, s1) = gpg_do_load_prvkey env GPG_KEY_FOR_AUTHENTICATION BY_USER
                               (drop 1 (pw1_keystring s)) s
               in if r < 0 then GPG_SECURITY_FAILURE (gpg_increment_pw_err_counter PW_ERR_PW1 s1)
                  else
                    (let s2 = ac_reset_pso_other (gpg_reset_pw_err_counter PW_ERR_PW1 s1);
                         (r, s3) = rsa_sign env data_start len s2
                     in if r < 0 then GPG_ERROR s3 else s3)))
         else GPG_ERROR s)"

section \<open>The dispatcher\<close>

definition cmds :: "(byte \<times> ('x collab \<Rightarrow> 'x card \<Rightarrow> 'x card)) list" where
  "cmds =
     [(INS_VERIFY, cmd_verify),
      (INS_CHANGE_REFERENCE_DATA, cmd_change_password),
      (INS_PSO, cmd_pso),
      (INS_RESET_RETRY_COUNTER, cmd_reset_user_password),
      (INS_PGP_GENERATE_ASYMMETRIC_KEY_PAIR, cmd_pgp_gakp),
      (INS_INTERNAL_AUTHENTICATE, cmd_internal_authenticate),
      (INS_SELECT_FILE, cmd_select_file),
      (INS_READ_BINARY, cmd_read_binary),
      (INS_GET_DATA, cmd_get_data),
      (INS_PUT_DATA, cmd_put_data),
      (INS_PUT_DATA_ODD, cmd_put_data)]"

text \<open>
  The \<open>for\<close> loop of \<open>process_command_apdu\<close>: the index of the first entry of the table whose
  command is \<open>cmd\<close>, or the length of the table when there is none.
\<close>

fun cmd_index :: "byte \<Rightarrow> (byte \<times> 'h) list \<Rightarrow> nat" where
  "cmd_index cmd [] = 0"
| "cmd_index cmd (e # es) = (if fst e = cmd then 0 else Suc (cmd_index cmd es))"

definition process_command_apdu :: "'x collab \<Rightarrow> 'x card \<Rightarrow> 'x card" where
  "process_command_apdu env s =
     (let cmd = cmd_APDU s ! 1;
          i = cmd_index cmd (cmds :: (byte \<times> ('x collab \<Rightarrow> 'x card \<Rightarrow> 'x card)) list)
      in if i < length (cmds :: (byte \<times> ('x collab \<Rightarrow> 'x card \<Rightarrow> 'x card)) list)
         then snd (cmds ! i) env s
         else GPG_NO_INS s)"

text \<open>
  One turn of the loop of \<open>GPGthread\<close>: the transport has put a command into the buffer and
  signalled the worker, which processes it. \<open>gpg_serve\<close> is the loop over the commands of a
  session, one after the other.
\<close>

definition receive :: "byte list \<Rightarrow> 'x card \<Rightarrow> 'x card" where
  "receive apdu s = s\<lparr>cmd_APDU := apdu, cmd_APDU_size := int (length apdu)\<rparr>"

fun gpg_serve :: "'x collab \<Rightarrow> byte list list \<Rightarrow> 'x card \<Rightarrow> 'x card" where
  "gpg_serve env [] s = s"
| "gpg_serve env (apdu # apdus) s = gpg_serve env apdus (process_command_apdu env (receive apdu s))"

section \<open>Predicates on collaborators and sessions\<close>

text \<open>
  The collaborators leave the digital-signature counter alone: it changes only through
  \<open>gpg_increment_digital_signature_counter\<close>, which openpgp.c calls itself.
\<close>

definition keeps_ds_counter :: "'x collab \<Rightarrow> bool" where
  "keeps_ds_counter env =
     ((\<forall>off len s. digital_signature_counter (snd (verify_pso_cds env off len s))
          = digital_signature_counter s)
    \<and> (\<forall>off len s. digital_signature_counter (snd (verify_pso_other env off len s))
          = digital_signature_counter s)
    \<and> (\<forall>off len s. digital_signature_counter (snd (verify_admin env off len s))
          = digital_signature_counter s)
    \<and> (\<forall>off len a s. digital_signature_counter (snd (verify_admin_0 env off len a s))
          = digital_signature_counter s)
    \<and> (\<forall>off len s. digital_signature_counter (gpg_set_pw3 env off len s)
          = digital_signature_counter s)
    \<and> (\<forall>k who ks s. digital_signature_counter (snd (gpg_do_load_prvkey env k who ks s))
          = digital_signature_counter s)
    \<and> (\<forall>k wo ko wn kn s. digital_signature_counter (snd (gpg_do_chks_prvkey env k wo ko wn kn s))
          = digital_signature_counter s)
    \<and> (\<forall>tag s. digital_signature_counter (gpg_do_get_data env tag s)
          = digital_signature_counter s)
    \<and> (\<forall>tag off len s. digital_signature_counter (gpg_do_put_data env tag off len s)
          = digital_signature_counter s)
    \<and> (\<forall>tag s. digital_signature_counter (gpg_do_public_key env tag s)
          = digital_signature_counter s)
    \<and> (\<forall>off len s. digital_signature_counter (snd (rsa_sign env off len s))
          = digital_signature_counter s)
    \<and> (\<forall>off len s. digital_signature_counter (snd (rsa_decrypt env off len s))
          = digital_signature_counter s))"

text \<open>
  The command in the buffer is a PSO:CDS command whose \<open>rsa_sign\<close> invocation succeeds: INS
  is PSO, (P1, P2) is (9E, 9A), the checks that precede the call of \<open>rsa_sign\<close> in \<open>cmd_pso\<close>
  pass, and \<open>rsa_sign\<close>, on the data the Lc bytes locate, does not return a negative value.
  \<open>cds_signatures\<close> counts such commands along a session.
\<close>

definition cds_signed :: "'x collab \<Rightarrow> 'x card \<Rightarrow> bool" where
  "cds_signed env s =
     (cmd_APDU s ! 1 = INS_PSO \<and> cmd_APDU s ! 2 = 0x9e \<and> cmd_APDU s ! 3 = 0x9a
      \<and> ac_check_status AC_PSO_CDS_AUTHORIZED s
      \<and> (cmd_APDU_size s = 8 + 35 \<or> cmd_APDU_size s = 8 + 35 + 1)
      \<and> 0 \<le> fst (rsa_sign env
                    (if uint (cmd_APDU s ! 4) = 0 then 7 else 5)
                    (if uint (cmd_APDU s ! 4) = 0
                     then push_bit 8 (uint (cmd_APDU s ! 5)) OR uint (cmd_APDU s ! 6)
                     else uint (cmd_APDU s ! 4)) s))"

fun cds_signatures :: "'x collab \<Rightarrow> byte list list \<Rightarrow> 'x card \<Rightarrow> nat" where
  "cds_signatures env [] s = 0"
| "cds_signatures env (apdu # apdus) s =
     (if cds_signed env (receive apdu s) then 1 else 0)
       + cds_signatures env apdus (process_command_apdu env (receive apdu s))"

text \<open>
  No private key is stored, in terms of the contracts of section 6 of the spec: for every
  slot \<open>gpg_do_load_prvkey\<close> reports the key absent, and \<open>gpg_do_chks_prvkey\<close>, with nothing
  to rewrap, succeeds; both leave the card as it is.
\<close>

definition no_prvkeys :: "'x collab \<Rightarrow> 'x card \<Rightarrow> bool" where
  "no_prvkeys env s =
     ((\<forall>k who ks. gpg_do_load_prvkey env k who ks s = (0, s))
    \<and> (\<forall>k wo ko wn kn. 0 \<le> fst (gpg_do_chks_prvkey env k wo ko wn kn s)
                        \<and> snd (gpg_do_chks_prvkey env k wo ko wn kn s) = s))"

section \<open>Reference collaborators\<close>

text \<open>
  Modelled from the spec: a card in its factory state and one instance of the collaborators,
  following their contracts in sections 3, 4.4, 4.5 and 6 of the spec, on which the handlers
  can be run on concrete commands. The collaborators keep their own data in a \<open>vault\<close>:
  the PINs in force, for each private-key slot the keystring under which each role wraps it
  (\<open>None\<close> for an absent slot), whether the flash refuses writes, and the tag-indexed data
  objects.
\<close>

record vault =
  pin_pw1 :: "byte list"
  pin_pw3 :: "byte list"
  wrapped :: "kind_of_key \<Rightarrow> (int \<Rightarrow> byte list option) option"
  flash_fails :: bool
  do_store :: "16 word \<Rightarrow> byte list option"

definition factory_card :: "'x \<Rightarrow> 'x card" where
  "factory_card x =
     \<lparr>cmd_APDU = [], cmd_APDU_size = 0, res_APDU = (\<lambda>i. 0), res_APDU_size = 0,
      file_selection = FILE_NONE, data_objects_number_of_bytes = 0,
      keystring_md_pw3 = [], pw1_keystring = [],
      auth_status = (\<lambda>f. False), pw_err_counter = (\<lambda>w. 0),
      digital_signature_counter = 0, do_simple = (\<lambda>nr. None), ext = x\<rparr>"

definition factory_vault :: vault where
  "factory_vault =
     \<lparr>pin_pw1 = [0x31, 0x32, 0x33, 0x34, 0x35, 0x36],
      pin_pw3 = [0x31, 0x32, 0x33, 0x34, 0x35, 0x36, 0x37, 0x38],
      wrapped = (\<lambda>k. None), flash_fails = False, do_store = (\<lambda>tag. None)\<rparr>"

text \<open>
  Modelled from the spec: the contract of a verify primitive (section 4.4): zero when the
  credential is blocked; positive on a match, which resets the counter and sets the flag;
  negative on a mismatch, which increments the counter.
\<close>

definition ref_verify ::
  "pw_err \<Rightarrow> ac_flag \<Rightarrow> (vault \<Rightarrow> byte list) \<Rightarrow> nat \<Rightarrow> int \<Rightarrow> vault card \<Rightarrow> int \<times> vault card" where
  "ref_verify which flag pin off len s =
     (if gpg_passwd_locked which s then (0, s)
      else if bytes_at (cmd_APDU s) off len = pin (ext s)
      then (1, (gpg_reset_pw_err_counter which s)\<lparr>auth_status := (auth_status s)(flag := True)\<rparr>)
      else (- 1, gpg_increment_pw_err_counter which s))"

text \<open>
  Modelled from the spec: \<open>verify_admin_0\<close> (section 4.5) returns the number of bytes the
  old PW3 takes at the head of the data, zero when PW3 is blocked, a negative number on a
  mismatch.
\<close>

definition ref_verify_admin_0 :: "nat \<Rightarrow> int \<Rightarrow> int \<Rightarrow> vault card \<Rightarrow> int \<times> vault card" where
  "ref_verify_admin_0 off len attempt s =
     (if gpg_passwd_locked PW_ERR_PW3 s then (0, s)
      else if int (length (pin_pw3 (ext s))) \<le> len
              \<and> bytes_at (cmd_APDU s) off (int (length (pin_pw3 (ext s)))) = pin_pw3 (ext s)
      then (int (length (pin_pw3 (ext s))), gpg_reset_pw_err_counter PW_ERR_PW3 s)
      else (- 1, gpg_increment_pw_err_counter PW_ERR_PW3 s))"

text \<open>A stand-in for SHA-1 with its output width: the input cut or zero-padded to 20 bytes.\<close>

definition ref_sha1 :: "byte list \<Rightarrow> byte list" where
  "ref_sha1 bs = take 20 (bs @ replicate 20 0)"

text \<open>
  Modelled from the spec: \<open>gpg_do_load_prvkey\<close> is 0 for an absent slot, positive when the
  keystring unwraps the key under the role, negative otherwise; \<open>gpg_do_chks_prvkey\<close> rewraps
  an existing key for the new role and is negative when the write fails (sections 4.5, 6).
\<close>

definition ref_load_prvkey ::
  "kind_of_key \<Rightarrow> int \<Rightarrow> byte list \<Rightarrow> vault card \<Rightarrow> int \<times> vault card" where
  "ref_load_prvkey k who ks s =
     (case wrapped (ext s) k of
        None \<Rightarrow> (0, s)
      | Some w \<Rightarrow> if w who = Some ks then (1, s) else (- 1, s))"

definition ref_chks_prvkey ::
  "kind_of_key \<Rightarrow> int \<Rightarrow> byte list \<Rightarrow> int \<Rightarrow> byte list \<Rightarrow> vault card \<Rightarrow> int \<times> vault card" where
  "ref_chks_prvkey k who_old ks_old who_new ks_new s =
     (case wrapped (ext s) k of
        None \<Rightarrow> (0, s)
      | Some w \<Rightarrow>
          if flash_fails (ext s) then (- 1, s)
          else (0, s\<lparr>ext := (ext s)\<lparr>wrapped := (wrapped (ext s))
                                (k := Some (w(who_new := Some ks_new)))\<rparr>\<rparr>))"

text \<open>
  Modelled from the spec: the tag-indexed store behind GET DATA and PUT DATA (section 4.10,
  property 8), and RSA primitives that answer with the input as a stand-in for their result.
\<close>

definition ref_get_data :: "16 word \<Rightarrow> vault card \<Rightarrow> vault card" where
  "ref_get_data tag s =
     (case do_store (ext s) tag of
        None \<Rightarrow> GPG_NO_RECORD s
      | Some d \<Rightarrow> write_res_apdu d (int (length d)) 0x90 0x00 s)"

definition ref_put_data :: "16 word \<Rightarrow> nat \<Rightarrow> int \<Rightarrow> vault card \<Rightarrow> vault card" where
  "ref_put_data tag off len s =
     GPG_SUCCESS (s\<lparr>ext := (ext s)\<lparr>do_store := (do_store (ext s))
                            (tag := Some (bytes_at (cmd_APDU s) off len))\<rparr>\<rparr>)"

definition ref_rsa :: "nat \<Rightarrow> int \<Rightarrow> vault card \<Rightarrow> int \<times> vault card" where
  "ref_rsa off len s =
     (0, write_res_apdu (bytes_at (cmd_APDU s) off len)
           (int (length (bytes_at (cmd_APDU s) off len))) 0x90 0x00 s)"

definition ref_collab :: "vault collab" where
  "ref_collab =
     \<lparr>verify_pso_cds = ref_verify PW_ERR_PW1 AC_PSO_CDS_AUTHORIZED pin_pw1,
      verify_pso_other = ref_verify PW_ERR_PW1 AC_PSO_OTHER_AUTHORIZED pin_pw1,
      verify_admin = ref_verify PW_ERR_PW3 AC_ADMIN_AUTHORIZED pin_pw3,
      verify_admin_0 = ref_verify_admin_0,
      gpg_set_pw3 = (\<lambda>off len s. s\<lparr>ext := (ext s)\<lparr>pin_pw3 := bytes_at (cmd_APDU s) off len\<rparr>\<rparr>),
      sha1 = ref_sha1,
      gpg_do_load_prvkey = ref_load_prvkey,
      gpg_do_chks_prvkey = ref_chks_prvkey,
      gpg_do_get_data = ref_get_data,
      gpg_do_put_data = ref_put_data,
      gpg_do_public_key = (\<lambda>tag s. GPG_NO_RECORD s),
      gpg_get_pw1_lifetime = (\<lambda>s. 0),
      rsa_sign = ref_rsa,
      rsa_decrypt = ref_rsa,
      openpgpcard_aid = [0x06, 0xd2, 0x76, 0x00, 0x01, 0x24, 0x01]\<rparr>"


text \<open>
  Cards on which the handlers are run below: a card with DF-OPENPGP selected, a vault that
  holds one data object, a vault that holds a signing key wrapped for one role (and whose
  flash may refuse writes), and a card with a signing key wrapped for the Reset Code
  "rc01", the stored Reset Code record, and the length-only record of an 8-byte PW1.
\<close>

definition selected :: "'x card \<Rightarrow> 'x card" where
  "selected s = s\<lparr>file_selection := FILE_DF_OPENPGP\<rparr>"

definition vault_with_do :: "16 word \<Rightarrow> byte list \<Rightarrow> vault" where
  "vault_with_do tag d = factory_vault\<lparr>do_store := (\<lambda>t. if t = tag then Some d else None)\<rparr>"

definition vault_with_signing_key :: "int \<Rightarrow> byte list \<Rightarrow> bool \<Rightarrow> vault" where
  "vault_with_signing_key who ks worn =
     factory_vault\<lparr>wrapped := (\<lambda>k. if k = GPG_KEY_FOR_SIGNING
                                    then Some (\<lambda>w. if w = who then Some ks else None)
                                    else None),
                   flash_fails := worn\<rparr>"

definition card_with_reset_code :: "vault card" where
  "card_with_reset_code =
     (factory_card (vault_with_signing_key BY_RESETCODE (ref_sha1 [0x72, 0x63, 0x30, 0x31]) False))
       \<lparr>do_simple := (\<lambda>nr. if nr = NR_DO_KEYSTRING_RC
                              then Some (0x04 # ref_sha1 [0x72, 0x63, 0x30, 0x31])
                              else Some [0x08]),
        auth_status := (\<lambda>f. True),
        pw_err_counter := (\<lambda>w. 2)\<rparr>"

text \<open>
  A session: VERIFY P2 = 0x81 with the factory PW1, PSO:CDS in extended form with a one-byte
  Le (43 bytes), GET DATA, PSO:CDS with a two-byte Le (44 bytes), and PSO:CDS in short form
  (40 bytes), which \<open>cmd_pso\<close> refuses for its length.
\<close>

definition signing_session :: "byte list list" where
  "signing_session =
     [[0x00, 0x20, 0x00, 0x81, 0x06, 0x31, 0x32, 0x33, 0x34, 0x35, 0x36],
      [0x00, 0x2a, 0x9e, 0x9a, 0x00, 0x00, 0x23] @ replicate 35 0x5a @ [0x00],
      [0x00, 0xca, 0x00, 0x5e, 0x00],
      [0x00, 0x2a, 0x9e, 0x9a, 0x00, 0x00, 0x23] @ replicate 35 0x5a @ [0x00, 0x00],
      [0x00, 0x2a, 0x9e, 0x9a, 0x23] @ replicate 35 0x5a]"

section \<open>Basic facts\<close>

lemmas status_defs = GPG_MEMORY_FAILURE_def GPG_SECURITY_FAILURE_def GPG_SECURITY_AUTH_BLOCKED_def
  GPG_NO_FILE_def GPG_NO_RECORD_def GPG_BAD_P0_P1_def GPG_NO_INS_def GPG_ERROR_def GPG_SUCCESS_def

lemmas helper_defs = ac_check_status_def ac_reset_pso_cds_def ac_reset_pso_other_def
  gpg_passwd_locked_def gpg_reset_pw_err_counter_def gpg_increment_pw_err_counter_def
  gpg_increment_digital_signature_counter_def gpg_do_read_simple_def gpg_do_write_simple_def
  PASSWORD_ERRORS_MAX_def

lemmas const_defs = FILE_NONE_def FILE_DF_OPENPGP_def FILE_MF_def FILE_EF_DIR_def
  FILE_EF_SERIAL_def BY_USER_def BY_RESETCODE_def BY_ADMIN_def KEYSTRING_MD_SIZE_def
  KEYSTRING_SIZE_PW1_def OPENPGP_CARD_INITIAL_PW1_def

lemmas ref_defs = ref_collab_def ref_verify_def ref_verify_admin_0_def ref_sha1_def
  ref_load_prvkey_def ref_chks_prvkey_def ref_get_data_def ref_put_data_def ref_rsa_def
  factory_card_def factory_vault_def receive_def bytes_at_def

lemmas ins_defs = INS_VERIFY_def INS_CHANGE_REFERENCE_DATA_def INS_PSO_def
  INS_RESET_RETRY_COUNTER_def INS_PGP_GENERATE_ASYMMETRIC_KEY_PAIR_def
  INS_INTERNAL_AUTHENTICATE_def INS_SELECT_FILE_def INS_READ_BINARY_def INS_GET_DATA_def
  INS_PUT_DATA_def INS_PUT_DATA_ODD_def

lemmas run_defs = process_command_apdu_def cmds_def ins_defs

lemma status_word_write_res_apdu [simp]:
  "0 \<le> len \<Longrightarrow> status_word (write_res_apdu p len sw1 sw2 s) = (sw1, sw2)"
  by (simp add: status_word_def write_res_apdu_def nat_add_distrib)

lemma write_res_apdu_frame [simp]:
  "cmd_APDU (write_res_apdu p len sw1 sw2 s) = cmd_APDU s"
  "cmd_APDU_size (write_res_apdu p len sw1 sw2 s) = cmd_APDU_size s"
  "file_selection (write_res_apdu p len sw1 sw2 s) = file_selection s"
  "data_objects_number_of_bytes (write_res_apdu p len sw1 sw2 s) = data_objects_number_of_bytes s"
  "keystring_md_pw3 (write_res_apdu p len sw1 sw2 s) = keystring_md_pw3 s"
  "pw1_keystring (write_res_apdu p len sw1 sw2 s) = pw1_keystring s"
  "auth_status (write_res_apdu p len sw1 sw2 s) = auth_status s"
  "pw_err_counter (write_res_apdu p len sw1 sw2 s) = pw_err_counter s"
  "digital_signature_counter (write_res_apdu p len sw1 sw2 s) = digital_signature_counter s"
  "do_simple (write_res_apdu p len sw1 sw2 s) = do_simple s"
  "ext (write_res_apdu p len sw1 sw2 s) = ext s"
  by (simp_all add: write_res_apdu_def)

lemma response_write_res_apdu_empty [simp]:
  "response (write_res_apdu p 0 sw1 sw2 s) = [sw1, sw2]"
  by (simp add: response_def write_res_apdu_def upt_rec numeral_2_eq_2)

section \<open>VERIFY\<close>

text \<open>
  Claim C5. For every VERIFY command the status word follows the sign of what the selected
  verify primitive returns: 69 82 when it is negative, 69 83 when it is zero (the credential
  is blocked), 90 00 when it is positive. The primitive is chosen by P2 and receives the
  data offset and length decoded from the Lc bytes.
\<close>

theorem cmd_verify_status:
  "status_word (cmd_verify env s) =
     (let p2 = cmd_APDU s ! 3;
          len0 = uint (cmd_APDU s ! 4);
          len = (if len0 = 0 then push_bit 8 (uint (cmd_APDU s ! 5)) OR uint (cmd_APDU s ! 6)
                 else len0);
          data_start = (if len0 = 0 then 7 else 5);
          r = fst ((if p2 = 0x81 then verify_pso_cds env
                    else if p2 = 0x82 then verify_pso_other env
                    else verify_admin env) data_start len s)
      in if r < 0 then (0x69, 0x82) else if r = 0 then (0x69, 0x83) else (0x90, 0x00))"
  by (simp add: cmd_verify_def Let_def status_defs split: prod.splits)

theorem cmd_verify_status_witness:
  "status_word (cmd_verify ref_collab
     (receive [0x00, 0x20, 0x00, 0x81, 0x06, 0x31, 0x32, 0x33, 0x34, 0x35, 0x36]
        (factory_card factory_vault))) = (0x90, 0x00)
   \<and> status_word (cmd_verify ref_collab
     (receive [0x00, 0x20, 0x00, 0x81, 0x03, 0x00, 0x00, 0x00]
        (factory_card factory_vault))) = (0x69, 0x82)
   \<and> status_word (cmd_verify ref_collab
     (receive [0x00, 0x20, 0x00, 0x81, 0x03, 0x00, 0x00, 0x00]
        ((factory_card factory_vault)\<lparr>pw_err_counter := (\<lambda>w. 3)\<rparr>))) = (0x69, 0x83)"
  using cmd_verify_status [of ref_collab
      "receive [0x00, 0x20, 0x00, 0x81, 0x06, 0x31, 0x32, 0x33, 0x34, 0x35, 0x36]
        (factory_card factory_vault)"]
    cmd_verify_status [of ref_collab
      "receive [0x00, 0x20, 0x00, 0x81, 0x03, 0x00, 0x00, 0x00] (factory_card factory_vault)"]
    cmd_verify_status [of ref_collab
      "receive [0x00, 0x20, 0x00, 0x81, 0x03, 0x00, 0x00, 0x00]
        ((factory_card factory_vault)\<lparr>pw_err_counter := (\<lambda>w. 3)\<rparr>)"]
  by (simp add: ref_defs helper_defs Let_def)

text \<open>
  Claim C9. A VERIFY command whose P2 is neither 0x81 nor 0x82 (0x83, but also 0x00 or any
  other value) runs the admin verification \<open>verify_admin\<close> on the supplied bytes: the card
  it leaves is the one \<open>verify_admin\<close> leaves, flags and error counters included, with the
  status word of the verification written into the response. The command is never answered
  with a wrong-P2 status. On the reference collaborators, P2 = 0x00 with the admin PIN sets
  \<open>AC_ADMIN_AUTHORIZED\<close> and P2 = 0x00 with a wrong PIN increments \<open>PW_ERR_PW3\<close>.
\<close>

theorem cmd_verify_other_p2_is_admin:
  assumes "cmd_APDU s ! 3 \<noteq> 0x81" and "cmd_APDU s ! 3 \<noteq> 0x82"
  shows "cmd_verify env s =
     (let len0 = uint (cmd_APDU s ! 4);
          len = (if len0 = 0 then push_bit 8 (uint (cmd_APDU s ! 5)) OR uint (cmd_APDU s ! 6)
                 else len0);
          data_start = (if len0 = 0 then 7 else 5);
          r = fst (verify_admin env data_start len s);
          s1 = snd (verify_admin env data_start len s)
      in if r < 0 then GPG_SECURITY_FAILURE s1
         else if r = 0 then GPG_SECURITY_AUTH_BLOCKED s1
         else GPG_SUCCESS s1)
    \<and> status_word (cmd_verify env s) \<in> {(0x69, 0x82), (0x69, 0x83), (0x90, 0x00)}"
  using assms
  by (simp add: cmd_verify_def Let_def status_defs split: prod.splits)

theorem cmd_verify_other_p2_is_admin_witness:
  "auth_status (cmd_verify ref_collab
     (receive [0x00, 0x20, 0x00, 0x00, 0x08, 0x31, 0x32, 0x33, 0x34, 0x35, 0x36, 0x37, 0x38]
        (factory_card factory_vault))) AC_ADMIN_AUTHORIZED
   \<and> status_word (cmd_verify ref_collab
     (receive [0x00, 0x20, 0x00, 0x00, 0x08, 0x31, 0x32, 0x33, 0x34, 0x35, 0x36, 0x37, 0x38]
        (factory_card factory_vault))) = (0x90, 0x00)
   \<and> pw_err_counter (cmd_verify ref_collab
     (receive [0x00, 0x20, 0x00, 0x00, 0x03, 0x00, 0x00, 0x00]
        (factory_card factory_vault))) PW_ERR_PW3 = 1"
  using cmd_verify_other_p2_is_admin [of
      "receive [0x00, 0x20, 0x00, 0x00, 0x08, 0x31, 0x32, 0x33, 0x34, 0x35, 0x36, 0x37, 0x38]
        (factory_card factory_vault)" ref_collab]
    cmd_verify_other_p2_is_admin [of
      "receive [0x00, 0x20, 0x00, 0x00, 0x03, 0x00, 0x00, 0x00] (factory_card factory_vault)"
      ref_collab]
  by (simp add: ref_defs helper_defs status_defs write_res_apdu_def status_word_def Let_def)

section \<open>GENERATE ASYMMETRIC KEY PAIR\<close>

text \<open>
  Whatever the card and the collaborators, the generate branch ends in the generic error.
\<close>

lemma cmd_pgp_gakp_generate_status:
  assumes "cmd_APDU s ! 2 \<noteq> 0x81"
  shows "status_word (cmd_pgp_gakp env s) = (0x6f, 0x00)"
  using assms by (simp add: cmd_pgp_gakp_def Let_def GPG_ERROR_def)

text \<open>
  Claim C8. GENERATE ASYMMETRIC KEY PAIR with P1 = 0x80 on a card where
  \<open>AC_ADMIN_AUTHORIZED\<close> is false: the handler writes the security failure and, since the
  status macro does not leave the handler, goes on to write the generic error over it. The
  status word that reaches the transport is 6F 00, where the claim expects 69 82.
\<close>

theorem gakp_unauthorized_generic_error:
  "status_word (process_command_apdu env
     (receive [0x00, 0x47, 0x80, 0x00, 0x02, 0xb6, 0x00] (factory_card x))) = (0x6f, 0x00)
   \<and> \<not> ac_check_status AC_ADMIN_AUTHORIZED
        (receive [0x00, 0x47, 0x80, 0x00, 0x02, 0xb6, 0x00] (factory_card x))"
  by (simp add: process_command_apdu_def cmds_def INS_VERIFY_def INS_CHANGE_REFERENCE_DATA_def
      INS_PSO_def INS_RESET_RETRY_COUNTER_def INS_PGP_GENERATE_ASYMMETRIC_KEY_PAIR_def
      cmd_pgp_gakp_def receive_def factory_card_def status_defs ac_check_status_def)

section \<open>GET DATA and PUT DATA\<close>

text \<open>
  Both handlers write 6A 88 when DF-OPENPGP is not selected and then, having not returned,
  hand the command to the data-object store all the same.
\<close>

lemma cmd_get_data_unselected:
  assumes "file_selection s \<noteq> FILE_DF_OPENPGP"
  shows "cmd_get_data env s =
           gpg_do_get_data env (push_bit 8 (ucast (cmd_APDU s ! 2)) OR ucast (cmd_APDU s ! 3))
             (GPG_NO_RECORD s)"
  using assms by (simp add: cmd_get_data_def Let_def)

lemma cmd_put_data_unselected:
  assumes "file_selection s \<noteq> FILE_DF_OPENPGP"
  shows "cmd_put_data env s =
           gpg_do_put_data env (push_bit 8 (ucast (cmd_APDU s ! 2)) OR ucast (cmd_APDU s ! 3))
             (if 256 \<le> cmd_APDU_size s - 5 then 7 else 5)
             (if 256 \<le> cmd_APDU_size s - 5 then cmd_APDU_size s - 7 else cmd_APDU_size s - 5)
             (GPG_NO_RECORD s)"
  using assms by (simp add: cmd_put_data_def Let_def GPG_NO_RECORD_def)

text \<open>
  Claim C1. GET DATA 00 CA 00 5E 00 on a card just powered up (nothing selected) whose store
  holds the object 5E, and PUT DATA 00 DA 00 5E 01 41 on a factory card: the store is reached
  in both, the answers are the object with 90 00 and a bare 90 00, the object is written, and
  \<open>file_selection\<close> is still NONE. The claim expects 6A 88 and no delegation.
\<close>

theorem data_commands_unselected_reach_do_store:
  "file_selection (receive [0x00, 0xca, 0x00, 0x5e, 0x00] (factory_card (vault_with_do 0x5e [0x41])))
     = FILE_NONE
   \<and> response (process_command_apdu ref_collab
         (receive [0x00, 0xca, 0x00, 0x5e, 0x00] (factory_card (vault_with_do 0x5e [0x41]))))
     = [0x41, 0x90, 0x00]
   \<and> file_selection (process_command_apdu ref_collab
         (receive [0x00, 0xca, 0x00, 0x5e, 0x00] (factory_card (vault_with_do 0x5e [0x41]))))
     = FILE_NONE
   \<and> response (process_command_apdu ref_collab
         (receive [0x00, 0xda, 0x00, 0x5e, 0x01, 0x41] (factory_card factory_vault)))
     = [0x90, 0x00]
   \<and> do_store (ext (process_command_apdu ref_collab
         (receive [0x00, 0xda, 0x00, 0x5e, 0x01, 0x41] (factory_card factory_vault)))) 0x5e
     = Some [0x41]
   \<and> file_selection (process_command_apdu ref_collab
         (receive [0x00, 0xda, 0x00, 0x5e, 0x01, 0x41] (factory_card factory_vault)))
     = FILE_NONE"
  by (simp add: run_defs cmd_get_data_def cmd_put_data_def ref_defs vault_with_do_def
      status_defs write_res_apdu_def response_def memcpy_def const_defs Let_def upt_rec)

text \<open>
  Claim C4, as stated, fails. \<open>cmd_put_data\<close> does not look at \<open>cmd_APDU[4]\<close>: the
  extended-form command 00 DA 00 5E 00 00 02 41 42 has a zero fifth byte and Lc = 2, yet the
  four bytes from offset 5 are stored, not the two from offset 7.
\<close>

theorem put_data_extended_lc_counterexample:
  "cmd_APDU (selected (receive [0x00, 0xda, 0x00, 0x5e, 0x00, 0x00, 0x02, 0x41, 0x42]
       (factory_card factory_vault))) ! 4 = 0
   \<and> do_store (ext (cmd_put_data ref_collab
         (selected (receive [0x00, 0xda, 0x00, 0x5e, 0x00, 0x00, 0x02, 0x41, 0x42]
            (factory_card factory_vault))))) 0x5e
     = Some [0x00, 0x02, 0x41, 0x42]
   \<and> cmd_put_data ref_collab
         (selected (receive [0x00, 0xda, 0x00, 0x5e, 0x00, 0x00, 0x02, 0x41, 0x42]
            (factory_card factory_vault)))
     \<noteq> gpg_do_put_data ref_collab 0x5e 7 (push_bit 8 0x00 OR 0x02)
         (selected (receive [0x00, 0xda, 0x00, 0x5e, 0x00, 0x00, 0x02, 0x41, 0x42]
            (factory_card factory_vault)))"
proof -
  let ?s = "selected (receive [0x00, 0xda, 0x00, 0x5e, 0x00, 0x00, 0x02, 0x41, 0x42]
       (factory_card factory_vault))"
  have stored: "do_store (ext (cmd_put_data ref_collab ?s)) 0x5e = Some [0x00, 0x02, 0x41, 0x42]"
    by (simp add: cmd_put_data_def selected_def ref_defs status_defs write_res_apdu_def
        const_defs Let_def)
  have claimed: "do_store (ext (gpg_do_put_data ref_collab 0x5e 7 (push_bit 8 0x00 OR 0x02) ?s)) 0x5e
      = Some [0x41, 0x42]"
    by (simp add: selected_def ref_defs status_defs write_res_apdu_def)
  have "cmd_APDU ?s ! 4 = 0"
    by (simp add: selected_def receive_def)
  moreover from stored claimed
  have "cmd_put_data ref_collab ?s \<noteq> gpg_do_put_data ref_collab 0x5e 7 (push_bit 8 0x00 OR 0x02) ?s"
    by auto
  ultimately show ?thesis using stored by blast
qed

text \<open>
  Claim C4, amended. For a PUT DATA command with DF-OPENPGP selected, the data handed to the
  store are located by the size of the command alone: with \<open>cmd_APDU_size - 5 \<ge> 256\<close> they
  start at offset 7 and have \<open>cmd_APDU_size - 7\<close> bytes, otherwise they start at offset 5
  and have \<open>cmd_APDU_size - 5\<close> bytes.
\<close>

theorem cmd_put_data_by_size:
  assumes "file_selection s = FILE_DF_OPENPGP"
  shows "cmd_put_data env s =
           gpg_do_put_data env (push_bit 8 (ucast (cmd_APDU s ! 2)) OR ucast (cmd_APDU s ! 3))
             (if 256 \<le> cmd_APDU_size s - 5 then 7 else 5)
             (if 256 \<le> cmd_APDU_size s - 5 then cmd_APDU_size s - 7 else cmd_APDU_size s - 5)
             s"
  using assms by (simp add: cmd_put_data_def Let_def)

theorem cmd_put_data_by_size_witness:
  "do_store (ext (cmd_put_data ref_collab
      (selected (receive ([0x00, 0xda, 0x00, 0x5e, 0x00, 0x01, 0x00] @ replicate 256 0x41)
         (factory_card factory_vault))))) 0x5e = Some (replicate 256 0x41)
   \<and> do_store (ext (cmd_put_data ref_collab
      (selected (receive [0x00, 0xda, 0x00, 0x5e, 0x02, 0x41, 0x42]
         (factory_card factory_vault))))) 0x5e = Some [0x41, 0x42]"
  using cmd_put_data_by_size [of
      "selected (receive ([0x00, 0xda, 0x00, 0x5e, 0x00, 0x01, 0x00] @ replicate 256 0x41)
         (factory_card factory_vault))" ref_collab]
    cmd_put_data_by_size [of
      "selected (receive [0x00, 0xda, 0x00, 0x5e, 0x02, 0x41, 0x42]
         (factory_card factory_vault))" ref_collab]
  by (simp add: selected_def ref_defs status_defs write_res_apdu_def)

section \<open>SELECT FILE\<close>

text \<open>
  Claim C7, as stated, fails twice. The template has 20 bytes, not 16, so the answer to
  00 A4 00 00 02 3F 00 has 22 bytes; and a command with P1 = 0x04 is a selection by DF name
  whatever its data, so 00 A4 04 00 02 3F 00 answers a bare 90 00 and does not select the MF.
\<close>

theorem select_mf_counterexample:
  "length (response (cmd_select_file ref_collab
       (receive [0x00, 0xa4, 0x00, 0x00, 0x02, 0x3f, 0x00] (factory_card factory_vault)))) = 20 + 2
   \<and> response (cmd_select_file ref_collab
       (receive [0x00, 0xa4, 0x04, 0x00, 0x02, 0x3f, 0x00] (factory_card factory_vault)))
     = [0x90, 0x00]
   \<and> file_selection (cmd_select_file ref_collab
       (receive [0x00, 0xa4, 0x04, 0x00, 0x02, 0x3f, 0x00] (factory_card factory_vault)))
     \<noteq> FILE_MF"
proof -
  have "length (response (cmd_select_file ref_collab
       (receive [0x00, 0xa4, 0x00, 0x00, 0x02, 0x3f, 0x00] (factory_card factory_vault)))) = 20 + 2"
    by (simp add: cmd_select_file_def receive_def factory_card_def write_res_apdu_def
        response_def select_file_TOP_result_def Let_def)
  moreover have "response (cmd_select_file ref_collab
       (receive [0x00, 0xa4, 0x04, 0x00, 0x02, 0x3f, 0x00] (factory_card factory_vault)))
     = [0x90, 0x00]"
    by (simp add: cmd_select_file_def receive_def GPG_SUCCESS_def)
  moreover have "file_selection (cmd_select_file ref_collab
       (receive [0x00, 0xa4, 0x04, 0x00, 0x02, 0x3f, 0x00] (factory_card factory_vault)))
     \<noteq> FILE_MF"
    by (simp add: cmd_select_file_def receive_def GPG_SUCCESS_def write_res_apdu_def const_defs)
  ultimately show ?thesis by blast
qed

text \<open>
  Claim C7, amended. For every SELECT FILE command with P1 \<noteq> 0x04, Lc = 2, data 3F 00 and
  P2 \<noteq> 0x0C the response is the 20-byte template with the low and the high byte of
  \<open>data_objects_number_of_bytes\<close> at offsets 2 and 3, followed by 90 00, and
  \<open>file_selection\<close> becomes MF.
\<close>

theorem select_mf_descriptor:
  assumes "cmd_APDU s ! 2 \<noteq> 4"
    and "cmd_APDU s ! 4 = 2" and "cmd_APDU s ! 5 = 0x3f" and "cmd_APDU s ! 6 = 0x00"
    and "cmd_APDU s ! 3 \<noteq> 0x0c"
  shows "response (cmd_select_file env s) =
           [0x00, 0x00,
            ucast (data_objects_number_of_bytes s AND 0xff),
            ucast (drop_bit 8 (data_objects_number_of_bytes s)),
            0x3f, 0x00, 0x38, 0xff, 0xff, 0x44, 0x44, 0x01, 0x05, 0x03, 0x01, 0x01,
            0x00, 0x00, 0x00, 0x00,
            0x90, 0x00]
         \<and> file_selection (cmd_select_file env s) = FILE_MF"
  using assms
  by (simp add: cmd_select_file_def write_res_apdu_def response_def memcpy_def
      select_file_TOP_result_def Let_def upt_rec)

theorem select_mf_descriptor_witness:
  "response (cmd_select_file ref_collab
     (receive [0x00, 0xa4, 0x00, 0x00, 0x02, 0x3f, 0x00]
        ((factory_card factory_vault)\<lparr>data_objects_number_of_bytes := 0x1234\<rparr>))) =
       [0x00, 0x00, 0x34, 0x12,
        0x3f, 0x00, 0x38, 0xff, 0xff, 0x44, 0x44, 0x01, 0x05, 0x03, 0x01, 0x01,
        0x00, 0x00, 0x00, 0x00,
        0x90, 0x00]
   \<and> file_selection (cmd_select_file ref_collab
     (receive [0x00, 0xa4, 0x00, 0x00, 0x02, 0x3f, 0x00]
        ((factory_card factory_vault)\<lparr>data_objects_number_of_bytes := 0x1234\<rparr>))) = FILE_MF"
  using select_mf_descriptor [of
      "receive [0x00, 0xa4, 0x00, 0x00, 0x02, 0x3f, 0x00]
        ((factory_card factory_vault)\<lparr>data_objects_number_of_bytes := 0x1234\<rparr>)" ref_collab]
  by (simp add: receive_def factory_card_def)

section \<open>CHANGE REFERENCE DATA and RESET RETRY COUNTER\<close>

text \<open>
  A return value of -2 from \<open>gpg_change_keystring\<close> is not below -2, so it takes the
  branch of the negative values: security failure.
\<close>

lemma change_password_rewrap_write_failure:
  assumes "fst (gpg_change_keystring env who (sha1 env (bytes_at (cmd_APDU s) pw pw_len)) who
             (sha1 env (bytes_at (cmd_APDU s) newpw newpw_len)) s) = - 2"
  shows "status_word (change_password_rewrap env who pw pw_len newpw newpw_len s) = (0x69, 0x82)"
  using assms by (simp add: change_password_rewrap_def Let_def case_prod_beta status_defs)

text \<open>
  Claim C2. A signing key is stored and the flash refuses the write of its rewrapped form, so
  \<open>gpg_do_chks_prvkey\<close> fails and \<open>gpg_change_keystring\<close> returns -2. CHANGE REFERENCE
  DATA 00 24 00 81 0C "123456" "newpw1" and RESET RETRY COUNTER 00 2C 02 81 06 "newpw1" (admin
  authorized) both answer 69 82, where the claim expects 65 81.
\<close>

theorem write_failure_answers_security_failure:
  "fst (gpg_change_keystring ref_collab BY_USER
          (ref_sha1 [0x31, 0x32, 0x33, 0x34, 0x35, 0x36]) BY_USER
          (ref_sha1 [0x6e, 0x65, 0x77, 0x70, 0x77, 0x31])
          (receive [0x00, 0x24, 0x00, 0x81, 0x0c,
                    0x31, 0x32, 0x33, 0x34, 0x35, 0x36, 0x6e, 0x65, 0x77, 0x70, 0x77, 0x31]
             (factory_card (vault_with_signing_key BY_USER
                (ref_sha1 [0x31, 0x32, 0x33, 0x34, 0x35, 0x36]) True)))) = - 2
   \<and> status_word (process_command_apdu ref_collab
          (receive [0x00, 0x24, 0x00, 0x81, 0x0c,
                    0x31, 0x32, 0x33, 0x34, 0x35, 0x36, 0x6e, 0x65, 0x77, 0x70, 0x77, 0x31]
             (factory_card (vault_with_signing_key BY_USER
                (ref_sha1 [0x31, 0x32, 0x33, 0x34, 0x35, 0x36]) True)))) = (0x69, 0x82)
   \<and> status_word (process_command_apdu ref_collab
          (receive [0x00, 0x2c, 0x02, 0x81, 0x06, 0x6e, 0x65, 0x77, 0x70, 0x77, 0x31]
             ((factory_card (vault_with_signing_key BY_ADMIN
                 (ref_sha1 [0x31, 0x32, 0x33, 0x34, 0x35, 0x36, 0x37, 0x38]) True))
              \<lparr>keystring_md_pw3 := ref_sha1 [0x31, 0x32, 0x33, 0x34, 0x35, 0x36, 0x37, 0x38],
               auth_status := (\<lambda>f. f = AC_ADMIN_AUTHORIZED)\<rparr>))) = (0x69, 0x82)"
proof -
  let ?pin = "[0x31, 0x32, 0x33, 0x34, 0x35, 0x36] :: byte list"
  let ?new = "[0x6e, 0x65, 0x77, 0x70, 0x77, 0x31] :: byte list"
  let ?chg = "receive ([0x00, 0x24, 0x00, 0x81, 0x0c] @ ?pin @ ?new)
                (factory_card (vault_with_signing_key BY_USER (ref_sha1 ?pin) True))"
  have r: "fst (gpg_change_keystring ref_collab BY_USER (ref_sha1 ?pin) BY_USER (ref_sha1 ?new) ?chg)
             = - 2"
    by (simp add: gpg_change_keystring_def ref_collab_def ref_load_prvkey_def
        ref_chks_prvkey_def receive_def factory_card_def vault_with_signing_key_def
        factory_vault_def)
  have chg: "status_word (process_command_apdu ref_collab ?chg) = (0x69, 0x82)"
    by (simp add: run_defs cmd_change_password_def change_password_rewrap_def
        gpg_change_keystring_def ref_collab_def ref_load_prvkey_def ref_chks_prvkey_def
        receive_def factory_card_def vault_with_signing_key_def factory_vault_def bytes_at_def
        helper_defs const_defs status_defs Let_def)
  have rst: "status_word (process_command_apdu ref_collab
          (receive ([0x00, 0x2c, 0x02, 0x81, 0x06] @ ?new)
             ((factory_card (vault_with_signing_key BY_ADMIN
                 (ref_sha1 [0x31, 0x32, 0x33, 0x34, 0x35, 0x36, 0x37, 0x38]) True))
              \<lparr>keystring_md_pw3 := ref_sha1 [0x31, 0x32, 0x33, 0x34, 0x35, 0x36, 0x37, 0x38],
               auth_status := (\<lambda>f. f = AC_ADMIN_AUTHORIZED)\<rparr>))) = (0x69, 0x82)"
    by (simp add: run_defs cmd_reset_user_password_def
        gpg_change_keystring_def ref_collab_def ref_load_prvkey_def ref_chks_prvkey_def
        receive_def factory_card_def vault_with_signing_key_def factory_vault_def bytes_at_def
        helper_defs const_defs status_defs Let_def)
  from r chg rst show ?thesis by simp
qed

text \<open>
  RESET RETRY COUNTER with the Reset Code (short Lc), whatever the collaborators: when
  \<open>gpg_change_keystring\<close> has rewrapped keys, the handler answers 90 00 and the PW1 record
  is the one \<open>gpg_change_keystring\<close> left; the handler writes none.
\<close>

lemma do_simple_status [simp]:
  "do_simple (GPG_SUCCESS s) = do_simple s"
  by (simp add: GPG_SUCCESS_def)

lemma reset_with_keys_writes_no_record:
  assumes "cmd_APDU s ! 2 = 0x00" and "\<not> gpg_passwd_locked PW_ERR_RC s"
    and "gpg_do_read_simple NR_DO_KEYSTRING_RC s = Some ks_rc"
    and "uint (cmd_APDU s ! 4) \<noteq> 0"
    and "0 < fst (gpg_change_keystring env BY_RESETCODE
                   (sha1 env (bytes_at (cmd_APDU s) 5 (uint (ks_rc ! 0)))) BY_USER
                   (sha1 env (bytes_at (cmd_APDU s) (5 + nat (uint (ks_rc ! 0)))
                      (uint (cmd_APDU s ! 4) - uint (ks_rc ! 0)))) s)"
  shows "status_word (cmd_reset_user_password env s) = (0x90, 0x00)
       \<and> gpg_do_read_simple NR_DO_KEYSTRING_PW1 (cmd_reset_user_password env s)
           = gpg_do_read_simple NR_DO_KEYSTRING_PW1
               (snd (gpg_change_keystring env BY_RESETCODE
                   (sha1 env (bytes_at (cmd_APDU s) 5 (uint (ks_rc ! 0)))) BY_USER
                   (sha1 env (bytes_at (cmd_APDU s) (5 + nat (uint (ks_rc ! 0)))
                      (uint (cmd_APDU s ! 4) - uint (ks_rc ! 0)))) s))"
  using assms
  by (simp add: cmd_reset_user_password_def Let_def case_prod_beta helper_defs GPG_SUCCESS_def)

text \<open>
  Claim C3. RESET RETRY COUNTER 00 2C 00 81 0A "rc01" "newpw1" on a card whose signing key is
  wrapped for the Reset Code: the key is rewrapped, the answer is 90 00 and the PW1 counter is
  reset, but the stored PW1 record is still the old one, \<open>[0x08]\<close>; the branch for rewrapped
  keys does not write the length-only record \<open>[0x06]\<close> of the new PW1, which the same branch
  of \<open>cmd_change_password\<close> does.
\<close>

theorem reset_with_keys_keeps_old_pw1_record:
  "status_word (process_command_apdu ref_collab
      (receive [0x00, 0x2c, 0x00, 0x81, 0x0a,
                0x72, 0x63, 0x30, 0x31, 0x6e, 0x65, 0x77, 0x70, 0x77, 0x31]
         card_with_reset_code)) = (0x90, 0x00)
   \<and> wrapped (ext (process_command_apdu ref_collab
      (receive [0x00, 0x2c, 0x00, 0x81, 0x0a,
                0x72, 0x63, 0x30, 0x31, 0x6e, 0x65, 0x77, 0x70, 0x77, 0x31]
         card_with_reset_code))) GPG_KEY_FOR_SIGNING \<noteq> None
   \<and> pw_err_counter (process_command_apdu ref_collab
      (receive [0x00, 0x2c, 0x00, 0x81, 0x0a,
                0x72, 0x63, 0x30, 0x31, 0x6e, 0x65, 0x77, 0x70, 0x77, 0x31]
         card_with_reset_code)) PW_ERR_PW1 = 0
   \<and> gpg_do_read_simple NR_DO_KEYSTRING_PW1 (process_command_apdu ref_collab
      (receive [0x00, 0x2c, 0x00, 0x81, 0x0a,
                0x72, 0x63, 0x30, 0x31, 0x6e, 0x65, 0x77, 0x70, 0x77, 0x31]
         card_with_reset_code)) = Some [0x08]"
  by (simp add: run_defs cmd_reset_user_password_def card_with_reset_code_def
        gpg_change_keystring_def ref_collab_def ref_load_prvkey_def ref_chks_prvkey_def
        receive_def factory_card_def vault_with_signing_key_def factory_vault_def bytes_at_def
        helper_defs const_defs status_defs Let_def)

text \<open>
  When no private key is stored, \<open>gpg_change_keystring\<close> returns 0 whatever the keystrings.
\<close>

lemma change_keystring_no_prvkeys:
  assumes "no_prvkeys env s"
  shows "gpg_change_keystring env wo ko wn kn s = (0, s)"
proof -
  have load: "gpg_do_load_prvkey env k who ks s = (0, s)" for k who ks
    using assms by (simp add: no_prvkeys_def)
  have chks: "\<not> fst (gpg_do_chks_prvkey env k a b c d s) < 0"
      "snd (gpg_do_chks_prvkey env k a b c d s) = s" for k a b c d
    using assms by (simp_all add: no_prvkeys_def not_less)
  show ?thesis
    by (simp add: gpg_change_keystring_def Let_def case_prod_beta load chks)
qed

lemma bytes_at_cong:
  assumes "length b' = length b"
    and "\<forall>i<length b. k \<le> i \<longrightarrow> b' ! i = b ! i"
  shows "bytes_at b' k n = bytes_at b k n"
proof -
  have "drop k b' = drop k b"
    using assms by (intro nth_equalityI) auto
  then show ?thesis by (simp add: bytes_at_def)
qed

text \<open>
  Claim C10. No private key is stored, and two CHANGE REFERENCE DATA commands with P2 = 0x81
  have the same length and differ at most in the bytes of the old PIN (the \<open>pw_len\<close> bytes
  from the data offset on, \<open>pw_len\<close> being the length byte of the stored PW1 record, or the
  length of the factory PW1 when there is none). Then both answer 90 00 and leave the same
  card, the command buffer apart: the old PIN is hashed but never compared with the stored
  keystring, and the record installed is the length and SHA-1 image of the new PIN.
\<close>

theorem change_pw1_ignores_old_pin:
  assumes nokeys: "no_prvkeys env s" "no_prvkeys env (s\<lparr>cmd_APDU := b'\<rparr>)"
    and p2: "cmd_APDU s ! 3 = 0x81"
    and pw: "pw = (if uint (cmd_APDU s ! 4) = 0 then 7 else 5)"
    and len: "len = (if uint (cmd_APDU s ! 4) = 0
                     then push_bit 8 (uint (cmd_APDU s ! 5)) OR uint (cmd_APDU s ! 6)
                     else uint (cmd_APDU s ! 4))"
    and pw_len: "pw_len = (case gpg_do_read_simple NR_DO_KEYSTRING_PW1 s of
                             None \<Rightarrow> int (length OPENPGP_CARD_INITIAL_PW1)
                           | Some pk \<Rightarrow> uint (pk ! 0))"
    and fits: "pw_len \<le> len" "pw \<le> length (cmd_APDU s)"
    and same: "length b' = length (cmd_APDU s)"
      "\<forall>i<length (cmd_APDU s). i < pw \<or> pw + nat pw_len \<le> i \<longrightarrow> b' ! i = cmd_APDU s ! i"
  shows "status_word (cmd_change_password env s) = (0x90, 0x00)
       \<and> status_word (cmd_change_password env (s\<lparr>cmd_APDU := b'\<rparr>)) = (0x90, 0x00)
       \<and> cmd_change_password env (s\<lparr>cmd_APDU := b'\<rparr>)
           = (cmd_change_password env s)\<lparr>cmd_APDU := b'\<rparr>
       \<and> gpg_do_read_simple NR_DO_KEYSTRING_PW1 (cmd_change_password env s)
           = Some (take 21 (word_of_int (len - pw_len)
                    # sha1 env (bytes_at (cmd_APDU s) (pw + nat pw_len) (len - pw_len))))"
proof -
  let ?s' = "s\<lparr>cmd_APDU := b'\<rparr>"
  let ?new = "sha1 env (bytes_at (cmd_APDU s) (pw + nat pw_len) (len - pw_len))"
  let ?done = "\<lambda>t. GPG_SUCCESS (gpg_reset_pw_err_counter PW_ERR_PW1 (ac_reset_pso_cds
                 (gpg_do_write_simple NR_DO_KEYSTRING_PW1
                    ((word_of_int (len - pw_len) :: byte) # ?new) KEYSTRING_SIZE_PW1 t)))"
  have who: "uint (cmd_APDU s ! 3) - 0x80 = BY_USER"
    using p2 by (simp add: BY_USER_def)
  have hdr: "b' ! i = cmd_APDU s ! i" if "i < pw" for i
    using that same(2) fits(2) by auto
  have b3: "b' ! 3 = cmd_APDU s ! 3" and b4: "b' ! 4 = cmd_APDU s ! 4"
    using hdr [of 3] hdr [of 4] pw by (simp_all split: if_splits)
  have b56: "uint (cmd_APDU s ! 4) = 0 \<Longrightarrow> b' ! 5 = cmd_APDU s ! 5 \<and> b' ! 6 = cmd_APDU s ! 6"
    using hdr [of 5] hdr [of 6] pw by simp
  have new_same: "bytes_at b' (pw + nat pw_len) (len - pw_len)
                    = bytes_at (cmd_APDU s) (pw + nat pw_len) (len - pw_len)"
    using same by (intro bytes_at_cong) auto
  have rewrap: "change_password_rewrap env BY_USER pw pw_len (pw + nat pw_len) (len - pw_len) t
                  = GPG_SUCCESS (gpg_reset_pw_err_counter PW_ERR_PW1 (ac_reset_pso_cds
                      (gpg_do_write_simple NR_DO_KEYSTRING_PW1
                         ((word_of_int (len - pw_len) :: byte)
                            # sha1 env (bytes_at (cmd_APDU t) (pw + nat pw_len) (len - pw_len)))
                         KEYSTRING_SIZE_PW1 t)))"
    if "no_prvkeys env t" for t
    by (simp add: change_password_rewrap_def Let_def change_keystring_no_prvkeys [OF that])
  have run: "cmd_change_password env s = ?done s"
    using who pw len pw_len fits(1) rewrap [OF nokeys(1)]
    by (auto simp add: cmd_change_password_def Let_def split: option.splits)
  have run': "cmd_change_password env ?s' = ?done ?s'"
    using who pw len pw_len fits(1) rewrap [OF nokeys(2)] b3 b4 b56 new_same
    by (auto simp add: cmd_change_password_def Let_def gpg_do_read_simple_def
        split: option.splits)
  have st: "status_word (?done t) = (0x90, 0x00)" for t :: "'a card"
    by (simp add: GPG_SUCCESS_def)
  have rd: "gpg_do_read_simple NR_DO_KEYSTRING_PW1 (?done t)
              = Some (take 21 (word_of_int (len - pw_len) # ?new))" for t :: "'a card"
    by (simp add: GPG_SUCCESS_def helper_defs KEYSTRING_SIZE_PW1_def)
  have eq: "?done ?s' = (?done s)\<lparr>cmd_APDU := b'\<rparr>"
    by (simp add: GPG_SUCCESS_def write_res_apdu_def helper_defs)
  have c1: "status_word (cmd_change_password env s) = (0x90, 0x00)"
    unfolding run by (rule st)
  have c2: "status_word (cmd_change_password env ?s') = (0x90, 0x00)"
    unfolding run' by (rule st)
  have c3: "cmd_change_password env ?s' = (cmd_change_password env s)\<lparr>cmd_APDU := b'\<rparr>"
    unfolding run run' by (rule eq)
  have c4: "gpg_do_read_simple NR_DO_KEYSTRING_PW1 (cmd_change_password env s)
              = Some (take 21 (word_of_int (len - pw_len) # ?new))"
    unfolding run by (rule rd)
  from c1 c2 c3 c4 show ?thesis by blast
qed

lemma length_ref_sha1 [simp]: "length (ref_sha1 bs) = 20"
  by (simp add: ref_sha1_def)

lemma no_prvkeys_ref_collab:
  "wrapped (ext s) = (\<lambda>k. None) \<Longrightarrow> no_prvkeys ref_collab s"
  by (simp add: no_prvkeys_def ref_collab_def ref_load_prvkey_def ref_chks_prvkey_def)

lemma old_pin_bytes_differ:
  "\<forall>i<length [0x00, 0x24, 0x00, 0x81, 0x0c,
               0x31, 0x32, 0x33, 0x34, 0x35, 0x36, 0x6e, 0x65, 0x77, 0x70, 0x77, 0x31 :: byte].
     i < 5 \<or> 5 + nat 6 \<le> i \<longrightarrow>
       [0x00, 0x24, 0x00, 0x81, 0x0c,
        0x39, 0x39, 0x39, 0x39, 0x39, 0x39, 0x6e, 0x65, 0x77, 0x70, 0x77, 0x31 :: byte] ! i
     = [0x00, 0x24, 0x00, 0x81, 0x0c,
        0x31, 0x32, 0x33, 0x34, 0x35, 0x36, 0x6e, 0x65, 0x77, 0x70, 0x77, 0x31] ! i"
  by (simp add: All_less_Suc eval_nat_numeral)

theorem change_pw1_ignores_old_pin_witness:
  "no_prvkeys ref_collab
     (receive [0x00, 0x24, 0x00, 0x81, 0x0c,
               0x31, 0x32, 0x33, 0x34, 0x35, 0x36, 0x6e, 0x65, 0x77, 0x70, 0x77, 0x31]
        (factory_card factory_vault))
   \<and> status_word (cmd_change_password ref_collab
        (receive [0x00, 0x24, 0x00, 0x81, 0x0c,
                  0x39, 0x39, 0x39, 0x39, 0x39, 0x39, 0x6e, 0x65, 0x77, 0x70, 0x77, 0x31]
           (factory_card factory_vault))) = (0x90, 0x00)
   \<and> cmd_change_password ref_collab
        (receive [0x00, 0x24, 0x00, 0x81, 0x0c,
                  0x39, 0x39, 0x39, 0x39, 0x39, 0x39, 0x6e, 0x65, 0x77, 0x70, 0x77, 0x31]
           (factory_card factory_vault))
       = (cmd_change_password ref_collab
           (receive [0x00, 0x24, 0x00, 0x81, 0x0c,
                     0x31, 0x32, 0x33, 0x34, 0x35, 0x36, 0x6e, 0x65, 0x77, 0x70, 0x77, 0x31]
              (factory_card factory_vault)))
         \<lparr>cmd_APDU := [0x00, 0x24, 0x00, 0x81, 0x0c,
                       0x39, 0x39, 0x39, 0x39, 0x39, 0x39, 0x6e, 0x65, 0x77, 0x70, 0x77, 0x31]\<rparr>
   \<and> gpg_do_read_simple NR_DO_KEYSTRING_PW1 (cmd_change_password ref_collab
        (receive [0x00, 0x24, 0x00, 0x81, 0x0c,
                  0x31, 0x32, 0x33, 0x34, 0x35, 0x36, 0x6e, 0x65, 0x77, 0x70, 0x77, 0x31]
           (factory_card factory_vault)))
       = Some (0x06 # ref_sha1 [0x6e, 0x65, 0x77, 0x70, 0x77, 0x31])"
proof -
  let ?b = "[0x00, 0x24, 0x00, 0x81, 0x0c,
             0x31, 0x32, 0x33, 0x34, 0x35, 0x36, 0x6e, 0x65, 0x77, 0x70, 0x77, 0x31] :: byte list"
  let ?b' = "[0x00, 0x24, 0x00, 0x81, 0x0c,
              0x39, 0x39, 0x39, 0x39, 0x39, 0x39, 0x6e, 0x65, 0x77, 0x70, 0x77, 0x31] :: byte list"
  let ?s = "receive ?b (factory_card factory_vault)"
  have s': "?s\<lparr>cmd_APDU := ?b'\<rparr> = receive ?b' (factory_card factory_vault)"
    by (simp add: receive_def)
  have nk: "no_prvkeys ref_collab ?s" "no_prvkeys ref_collab (?s\<lparr>cmd_APDU := ?b'\<rparr>)"
    by (simp_all add: no_prvkeys_ref_collab receive_def factory_card_def factory_vault_def)
  have same: "\<forall>i<length (cmd_APDU ?s). i < 5 \<or> 5 + nat 6 \<le> i \<longrightarrow> ?b' ! i = cmd_APDU ?s ! i"
    using old_pin_bytes_differ by (simp add: receive_def)
  have k: "take 21 (word_of_int (12 - 6)
             # sha1 ref_collab (bytes_at (cmd_APDU ?s) (5 + nat 6) (12 - 6)))
           = 0x06 # ref_sha1 [0x6e, 0x65, 0x77, 0x70, 0x77, 0x31]"
    by (simp add: receive_def bytes_at_def ref_collab_def)
  have m: "status_word (cmd_change_password ref_collab ?s) = (0x90, 0x00)
       \<and> status_word (cmd_change_password ref_collab (?s\<lparr>cmd_APDU := ?b'\<rparr>)) = (0x90, 0x00)
       \<and> cmd_change_password ref_collab (?s\<lparr>cmd_APDU := ?b'\<rparr>)
           = (cmd_change_password ref_collab ?s)\<lparr>cmd_APDU := ?b'\<rparr>
       \<and> gpg_do_read_simple NR_DO_KEYSTRING_PW1 (cmd_change_password ref_collab ?s)
           = Some (take 21 (word_of_int (12 - 6)
                    # sha1 ref_collab (bytes_at (cmd_APDU ?s) (5 + nat 6) (12 - 6))))"
    by (rule change_pw1_ignores_old_pin [OF nk _ _ _ _ _ _ _ same])
      (simp_all add: receive_def factory_card_def gpg_do_read_simple_def
        OPENPGP_CARD_INITIAL_PW1_def)
  from m [unfolded k s'] nk(1) show ?thesis by blast
qed

section \<open>The digital-signature counter\<close>

lemma keeps_ds_counterD:
  assumes "keeps_ds_counter env"
  shows "digital_signature_counter (snd (verify_pso_cds env off len s)) = digital_signature_counter s"
    and "digital_signature_counter (snd (verify_pso_other env off len s)) = digital_signature_counter s"
    and "digital_signature_counter (snd (verify_admin env off len s)) = digital_signature_counter s"
    and "digital_signature_counter (snd (verify_admin_0 env off len a s)) = digital_signature_counter s"
    and "digital_signature_counter (gpg_set_pw3 env off len s) = digital_signature_counter s"
    and "digital_signature_counter (snd (gpg_do_load_prvkey env k who ks s)) = digital_signature_counter s"
    and "digital_signature_counter (snd (gpg_do_chks_prvkey env k wo ko wn kn s)) = digital_signature_counter s"
    and "digital_signature_counter (gpg_do_get_data env tag s) = digital_signature_counter s"
    and "digital_signature_counter (gpg_do_put_data env tag off len s) = digital_signature_counter s"
    and "digital_signature_counter (gpg_do_public_key env tag8 s) = digital_signature_counter s"
    and "digital_signature_counter (snd (rsa_sign env off len s)) = digital_signature_counter s"
    and "digital_signature_counter (snd (rsa_decrypt env off len s)) = digital_signature_counter s"
  using assms by (simp_all add: keeps_ds_counter_def)

lemma ds_counter_helpers [simp]:
  "digital_signature_counter (ac_reset_pso_cds s) = digital_signature_counter s"
  "digital_signature_counter (ac_reset_pso_other s) = digital_signature_counter s"
  "digital_signature_counter (gpg_reset_pw_err_counter w s) = digital_signature_counter s"
  "digital_signature_counter (gpg_increment_pw_err_counter w s) = digital_signature_counter s"
  "digital_signature_counter (gpg_do_write_simple nr d n s) = digital_signature_counter s"
  "digital_signature_counter (gpg_increment_digital_signature_counter s)
     = Suc (digital_signature_counter s)"
  "digital_signature_counter (receive apdu s) = digital_signature_counter s"
  by (simp_all add: helper_defs receive_def)

lemma ds_counter_status [simp]:
  "digital_signature_counter (GPG_MEMORY_FAILURE s) = digital_signature_counter s"
  "digital_signature_counter (GPG_SECURITY_FAILURE s) = digital_signature_counter s"
  "digital_signature_counter (GPG_SECURITY_AUTH_BLOCKED s) = digital_signature_counter s"
  "digital_signature_counter (GPG_NO_FILE s) = digital_signature_counter s"
  "digital_signature_counter (GPG_NO_RECORD s) = digital_signature_counter s"
  "digital_signature_counter (GPG_BAD_P0_P1 s) = digital_signature_counter s"
  "digital_signature_counter (GPG_NO_INS s) = digital_signature_counter s"
  "digital_signature_counter (GPG_ERROR s) = digital_signature_counter s"
  "digital_signature_counter (GPG_SUCCESS s) = digital_signature_counter s"
  by (simp_all add: status_defs)

lemma ds_counter_change_keystring:
  assumes "keeps_ds_counter env"
  shows "digital_signature_counter (snd (gpg_change_keystring env wo ko wn kn s))
           = digital_signature_counter s"
  by (simp add: gpg_change_keystring_def Let_def case_prod_beta keeps_ds_counterD [OF assms])

lemma ds_counter_cmd_verify:
  assumes "keeps_ds_counter env"
  shows "digital_signature_counter (cmd_verify env s) = digital_signature_counter s"
  by (simp add: cmd_verify_def Let_def case_prod_beta keeps_ds_counterD [OF assms])

lemma ds_counter_change_password_rewrap:
  assumes "keeps_ds_counter env"
  shows "digital_signature_counter (change_password_rewrap env who pw pw_len newpw newpw_len s)
           = digital_signature_counter s"
  by (simp add: change_password_rewrap_def Let_def case_prod_beta
      ds_counter_change_keystring [OF assms])

lemma ds_counter_cmd_change_password:
  assumes "keeps_ds_counter env"
  shows "digital_signature_counter (cmd_change_password env s) = digital_signature_counter s"
  by (simp add: cmd_change_password_def Let_def case_prod_beta keeps_ds_counterD [OF assms]
      ds_counter_change_password_rewrap [OF assms] split: option.splits)

lemma ds_counter_sec_fail [simp]:
  "digital_signature_counter (sec_fail s) = digital_signature_counter s"
  by (simp add: sec_fail_def)

lemma ds_counter_cmd_reset_user_password:
  assumes "keeps_ds_counter env"
  shows "digital_signature_counter (cmd_reset_user_password env s) = digital_signature_counter s"
  by (simp add: cmd_reset_user_password_def Let_def case_prod_beta
      ds_counter_change_keystring [OF assms] split: option.splits)

lemma ds_counter_cmd_put_data:
  assumes "keeps_ds_counter env"
  shows "digital_signature_counter (cmd_put_data env s) = digital_signature_counter s"
  by (simp add: cmd_put_data_def Let_def keeps_ds_counterD [OF assms])

lemma ds_counter_cmd_get_data:
  assumes "keeps_ds_counter env"
  shows "digital_signature_counter (cmd_get_data env s) = digital_signature_counter s"
  by (simp add: cmd_get_data_def Let_def keeps_ds_counterD [OF assms])

lemma ds_counter_cmd_pgp_gakp:
  assumes "keeps_ds_counter env"
  shows "digital_signature_counter (cmd_pgp_gakp env s) = digital_signature_counter s"
  by (simp add: cmd_pgp_gakp_def Let_def keeps_ds_counterD [OF assms])

lemma ds_counter_cmd_read_binary:
  "digital_signature_counter (cmd_read_binary env s) = digital_signature_counter s"
  by (simp add: cmd_read_binary_def Let_def)

lemma ds_counter_cmd_select_file:
  "digital_signature_counter (cmd_select_file env s) = digital_signature_counter s"
  by (simp add: cmd_select_file_def Let_def)

lemma ds_counter_cmd_internal_authenticate:
  assumes "keeps_ds_counter env"
  shows "digital_signature_counter (cmd_internal_authenticate env s) = digital_signature_counter s"
  by (simp add: cmd_internal_authenticate_def Let_def case_prod_beta keeps_ds_counterD [OF assms])

lemma ds_counter_cmd_pso:
  assumes "keeps_ds_counter env" and "cmd_APDU s ! 1 = INS_PSO"
  shows "digital_signature_counter (cmd_pso env s) =
           digital_signature_counter s + (if cds_signed env s then 1 else 0)"
proof (cases "cmd_APDU s ! 2 = 0x9e \<and> cmd_APDU s ! 3 = 0x9a")
  case True
  then show ?thesis
    using assms(2)
    by (auto simp add: cmd_pso_def cds_signed_def Let_def case_prod_beta
        keeps_ds_counterD [OF assms(1)])
next
  case False
  then have "\<not> cds_signed env s"
    by (auto simp add: cds_signed_def)
  with False show ?thesis
    by (auto simp add: cmd_pso_def Let_def case_prod_beta keeps_ds_counterD [OF assms(1)])
qed

lemma not_cds_signed:
  "cmd_APDU s ! 1 \<noteq> INS_PSO \<Longrightarrow> \<not> cds_signed env s"
  by (simp add: cds_signed_def)

lemma process_command_apdu_dispatch:
  "process_command_apdu env s =
     (let cmd = cmd_APDU s ! 1
      in if cmd = INS_VERIFY then cmd_verify env s
         else if cmd = INS_CHANGE_REFERENCE_DATA then cmd_change_password env s
         else if cmd = INS_PSO then cmd_pso env s
         else if cmd = INS_RESET_RETRY_COUNTER then cmd_reset_user_password env s
         else if cmd = INS_PGP_GENERATE_ASYMMETRIC_KEY_PAIR then cmd_pgp_gakp env s
         else if cmd = INS_INTERNAL_AUTHENTICATE then cmd_internal_authenticate env s
         else if cmd = INS_SELECT_FILE then cmd_select_file env s
         else if cmd = INS_READ_BINARY then cmd_read_binary env s
         else if cmd = INS_GET_DATA then cmd_get_data env s
         else if cmd = INS_PUT_DATA then cmd_put_data env s
         else if cmd = INS_PUT_DATA_ODD then cmd_put_data env s
         else GPG_NO_INS s)"
  by (simp add: run_defs Let_def)

lemma ds_counter_process_command_apdu:
  assumes "keeps_ds_counter env"
  shows "digital_signature_counter (process_command_apdu env s) =
           digital_signature_counter s + (if cds_signed env s then 1 else 0)"
proof (cases "cmd_APDU s ! 1 = INS_PSO")
  case True
  then have "process_command_apdu env s = cmd_pso env s"
    by (simp add: process_command_apdu_dispatch ins_defs)
  with True show ?thesis
    by (simp only: ds_counter_cmd_pso [OF assms True])
next
  case False
  then have "\<not> cds_signed env s"
    by (rule not_cds_signed)
  moreover from False have "digital_signature_counter (process_command_apdu env s)
      = digital_signature_counter s"
    by (simp add: process_command_apdu_dispatch Let_def ds_counter_cmd_verify [OF assms]
        ds_counter_cmd_change_password [OF assms] ds_counter_cmd_reset_user_password [OF assms]
        ds_counter_cmd_pgp_gakp [OF assms] ds_counter_cmd_internal_authenticate [OF assms]
        ds_counter_cmd_select_file ds_counter_cmd_read_binary ds_counter_cmd_get_data [OF assms]
        ds_counter_cmd_put_data [OF assms])
  ultimately show ?thesis by simp
qed

text \<open>
  Claim C6. Over every sequence of commands, provided the collaborators leave the counter
  alone, the digital-signature counter at the end is the counter at the start plus the number
  of PSO:CDS commands whose \<open>rsa_sign\<close> invocation succeeded: each of them increments it
  exactly once, no other command changes it, and it never decreases.
\<close>

theorem ds_counter_counts_cds_signatures:
  assumes "keeps_ds_counter env"
  shows "digital_signature_counter (gpg_serve env apdus s)
           = digital_signature_counter s + cds_signatures env apdus s
         \<and> digital_signature_counter s \<le> digital_signature_counter (gpg_serve env apdus s)"
proof -
  have "digital_signature_counter (gpg_serve env apdus s)
          = digital_signature_counter s + cds_signatures env apdus s"
  proof (induction apdus arbitrary: s)
    case Nil
    show ?case by simp
  next
    case (Cons apdu apdus)
    have "digital_signature_counter (gpg_serve env (apdu # apdus) s)
            = digital_signature_counter (process_command_apdu env (receive apdu s))
                + cds_signatures env apdus (process_command_apdu env (receive apdu s))"
      using Cons.IH by simp
    also have "digital_signature_counter (process_command_apdu env (receive apdu s))
            = digital_signature_counter s + (if cds_signed env (receive apdu s) then 1 else 0)"
      by (simp add: ds_counter_process_command_apdu [OF assms])
    finally show ?case by simp
  qed
  then show ?thesis by simp
qed

lemma keeps_ds_counter_ref_collab: "keeps_ds_counter ref_collab"
  by (simp add: keeps_ds_counter_def ref_collab_def ref_verify_def ref_verify_admin_0_def
      ref_load_prvkey_def ref_chks_prvkey_def ref_get_data_def ref_put_data_def ref_rsa_def
      split: option.splits)

lemma cds_signatures_signing_session:
  "cds_signatures ref_collab signing_session (factory_card factory_vault) = 2"
  by (simp add: signing_session_def cds_signed_def process_command_apdu_dispatch ins_defs
      cmd_verify_def cmd_pso_def cmd_get_data_def ref_defs helper_defs status_defs const_defs
      Let_def)

theorem ds_counter_counts_cds_signatures_witness:
  "keeps_ds_counter ref_collab
   \<and> cds_signatures ref_collab signing_session (factory_card factory_vault) = 2
   \<and> digital_signature_counter (gpg_serve ref_collab signing_session (factory_card factory_vault))
       = 2"
  using ds_counter_counts_cds_signatures [OF keeps_ds_counter_ref_collab,
      of signing_session "factory_card factory_vault"]
    keeps_ds_counter_ref_collab cds_signatures_signing_session
  by (simp add: factory_card_def)

end
